theory Spec2Isabelle
  imports Main
begin

section \<open>Go strings\<close>

text \<open>
  A Go string is a sequence of bytes; it is modelled as a \<open>char list\<close>, one \<open>char\<close> per byte.
  The functions of package \<open>strings\<close> that the program calls are written out below with the
  names they have in Go.
\<close>

fun HasPrefix :: "string \<Rightarrow> string \<Rightarrow> bool" where
  "HasPrefix s [] = True"
| "HasPrefix [] (p # ps) = False"
| "HasPrefix (c # cs) (p # ps) = (c = p \<and> HasPrefix cs ps)"

definition HasSuffix :: "string \<Rightarrow> string \<Rightarrow> bool" where
  "HasSuffix s suffix = HasPrefix (rev s) (rev suffix)"

fun Contains :: "string \<Rightarrow> string \<Rightarrow> bool" where
  "Contains [] sub = (sub = [])"
| "Contains (c # cs) sub = (HasPrefix (c # cs) sub \<or> Contains cs sub)"

text \<open>
  \<open>strings.TrimPrefix\<close>: the string without the prefix when it has it, else the string.
\<close>

definition TrimPrefix :: "string \<Rightarrow> string \<Rightarrow> string" where
  "TrimPrefix s p = (if HasPrefix s p then drop (length p) s else s)"

text \<open>
  \<open>strings.ReplaceAll(s, old, new)\<close> where \<open>old\<close> is one byte long, which is the case at
  every call site of the program: each occurrence of the byte is replaced by \<open>new\<close>.
\<close>

definition ReplaceAll :: "string \<Rightarrow> char \<Rightarrow> string \<Rightarrow> string" where
  "ReplaceAll s old new = concat (map (\<lambda>c. if c = old then new else [c]) s)"

text \<open>
  \<open>strings.Split(s, sep)\<close> for a non-empty separator: the pieces between the leftmost,
  non-overlapping occurrences of \<open>sep\<close>. The second argument of \<open>SplitFrom\<close> holds, reversed,
  the bytes of the piece being read. (With an empty separator Go splits after every UTF-8
  sequence; the program never does that, and the model returns the string whole.)
\<close>

fun SplitFrom :: "string \<Rightarrow> string \<Rightarrow> string \<Rightarrow> string list" where
  "SplitFrom [] cur sep = [rev cur]"
| "SplitFrom (c # cs) cur sep =
     (if sep \<noteq> [] \<and> HasPrefix (c # cs) sep
      then rev cur # SplitFrom (drop (length sep - 1) cs) [] sep
      else SplitFrom cs (c # cur) sep)"

definition Split :: "string \<Rightarrow> string \<Rightarrow> string list" where
  "Split s sep = SplitFrom s [] sep"

subsection \<open>White space\<close>

text \<open>
  \<open>strings.TrimSpace\<close> removes the leading and the trailing white space of a string, where
  white space is what \<open>unicode.IsSpace\<close> accepts: the code points U+0009 to U+000D, U+0020,
  U+0085, U+00A0, U+1680, U+2000 to U+200A, U+2028, U+2029, U+202F, U+205F and U+3000.
  Go decodes the string as UTF-8, forwards at the front and backwards at the end, and a byte
  that does not decode counts as a character that is not white space. The decoder accepts
  only the shortest encoding of a code point, so a string starts (ends) with a white space
  character exactly when it starts (ends) with one of the byte sequences of \<open>spaceRunes\<close>.
\<close>

definition spaceRunes :: "string list" where
  "spaceRunes =
    [[CHR 0x09], [CHR 0x0A], [CHR 0x0B], [CHR 0x0C], [CHR 0x0D], [CHR 0x20],
     [CHR 0xC2, CHR 0x85], [CHR 0xC2, CHR 0xA0],
     [CHR 0xE1, CHR 0x9A, CHR 0x80],
     [CHR 0xE2, CHR 0x80, CHR 0x80], [CHR 0xE2, CHR 0x80, CHR 0x81],
     [CHR 0xE2, CHR 0x80, CHR 0x82], [CHR 0xE2, CHR 0x80, CHR 0x83],
     [CHR 0xE2, CHR 0x80, CHR 0x84], [CHR 0xE2, CHR 0x80, CHR 0x85],
     [CHR 0xE2, CHR 0x80, CHR 0x86], [CHR 0xE2, CHR 0x80, CHR 0x87],
     [CHR 0xE2, CHR 0x80, CHR 0x88], [CHR 0xE2, CHR 0x80, CHR 0x89],
     [CHR 0xE2, CHR 0x80, CHR 0x8A],
     [CHR 0xE2, CHR 0x80, CHR 0xA8], [CHR 0xE2, CHR 0x80, CHR 0xA9],
     [CHR 0xE2, CHR 0x80, CHR 0xAF], [CHR 0xE2, CHR 0x81, CHR 0x9F],
     [CHR 0xE3, CHR 0x80, CHR 0x80]]"

text \<open>
  The number of bytes of the white space character a string starts with, \<open>0\<close> when it
  starts with none.
\<close>

definition spaceWidth :: "string \<Rightarrow> nat" where
  "spaceWidth s = (case find (HasPrefix s) spaceRunes of None \<Rightarrow> 0 | Some w \<Rightarrow> length w)"

definition lastSpaceWidth :: "string \<Rightarrow> nat" where
  "lastSpaceWidth s = (case find (HasSuffix s) spaceRunes of None \<Rightarrow> 0 | Some w \<Rightarrow> length w)"

lemma HasPrefix_length: "HasPrefix s p \<Longrightarrow> length p \<le> length s"
  by (induction s p rule: HasPrefix.induct) auto

lemma spaceRunes_nonempty: "w \<in> set spaceRunes \<Longrightarrow> w \<noteq> []"
  by (auto simp: spaceRunes_def)

lemma spaceWidth_le: "spaceWidth s \<le> length s"
  by (auto simp: spaceWidth_def split: option.splits dest!: find_Some_iff[THEN iffD1]
      intro: HasPrefix_length)

lemma lastSpaceWidth_le: "lastSpaceWidth s \<le> length s"
proof (cases "find (HasSuffix s) spaceRunes")
  case None
  then show ?thesis by (simp add: lastSpaceWidth_def)
next
  case (Some w)
  then have "HasSuffix s w" by (auto simp: find_Some_iff)
  then have "length (rev w) \<le> length (rev s)"
    unfolding HasSuffix_def by (rule HasPrefix_length)
  with Some show ?thesis by (simp add: lastSpaceWidth_def)
qed

lemma spaceWidth_decreases: "0 < spaceWidth s \<Longrightarrow> length s - spaceWidth s < length s"
  using spaceWidth_le [of s] by auto

lemma lastSpaceWidth_decreases:
  "0 < lastSpaceWidth s \<Longrightarrow> length s - lastSpaceWidth s < length s"
  using lastSpaceWidth_le [of s] by auto

function TrimLeftSpace :: "string \<Rightarrow> string" where
  "TrimLeftSpace s = (if spaceWidth s = 0 then s else TrimLeftSpace (drop (spaceWidth s) s))"
  by pat_completeness auto
termination
  by (relation "measure length") (auto intro: spaceWidth_decreases)

function TrimRightSpace :: "string \<Rightarrow> string" where
  "TrimRightSpace s =
     (if lastSpaceWidth s = 0 then s else TrimRightSpace (take (length s - lastSpaceWidth s) s))"
  by pat_completeness auto
termination
  by (relation "measure length") (auto intro: lastSpaceWidth_decreases)

declare TrimLeftSpace.simps [simp del] TrimRightSpace.simps [simp del]

definition TrimSpace :: "string \<Rightarrow> string" where
  "TrimSpace s = TrimRightSpace (TrimLeftSpace s)"

section \<open>Errors\<close>

text \<open>
  A Go \<open>error\<close> is a value. \<open>Errorf\<close> is an error made by \<open>fmt.Errorf\<close> from a text,
  \<open>Wrapf\<close> one that wraps another error behind a text (\<open>fmt.Errorf("...: %w", err)\<close>); the
  other constructors are the errors that come from outside the program: \<open>strconv\<close>,
  \<open>net/url\<close>, \<open>fmt\<close>'s scanner, a child process that fails, the GitHub API.
  A function that returns only an \<open>error\<close> returns an \<open>error option\<close>, with \<open>None\<close> for \<open>nil\<close>;
  a function that returns a value and an error returns \<open>error + 'a\<close>.
\<close>

datatype error =
    Errorf string
  | Wrapf string error
  | ErrSyntax
  | ErrRange
  | ErrURLParse
  | ErrScan
  | ErrExec
  | ErrAPI

section \<open>Package validate\<close>

text \<open>
  The two regular expressions \<open>^[a-zA-Z0-9._/-]+$\<close> and \<open>^[a-zA-Z0-9._-]+$\<close>. In Go's
  syntax \<open>$\<close> matches at the end of the text only, so a string matches when it is not empty
  and each of its bytes is in the class.
\<close>

definition inRange :: "char \<Rightarrow> char \<Rightarrow> char \<Rightarrow> bool" where
  "inRange lo hi c = ((of_char lo :: nat) \<le> of_char c \<and> (of_char c :: nat) \<le> of_char hi)"

definition alnum :: "char \<Rightarrow> bool" where
  "alnum c = (inRange CHR ''a'' CHR ''z'' c \<or> inRange CHR ''A'' CHR ''Z'' c
              \<or> inRange CHR ''0'' CHR ''9'' c)"

definition validBranchName :: "string \<Rightarrow> bool" where
  "validBranchName s = (s \<noteq> [] \<and> list_all (\<lambda>c. alnum c \<or> c \<in> set ''._/-'') s)"

definition validRepoName :: "string \<Rightarrow> bool" where
  "validRepoName s = (s \<noteq> [] \<and> list_all (\<lambda>c. alnum c \<or> c \<in> set ''._-'') s)"

text \<open>
  The characters that \<open>SanitizeForGitConfig\<close> removes in its loop:
  \<open>; & | ` $ ( ) < > ' " \\<close>.
\<close>

definition shellSpecials :: "char list" where
  "shellSpecials =
     [CHR '';'', CHR ''&'', CHR ''|'', CHR 0x60, CHR ''$'', CHR ''('', CHR '')'',
      CHR ''<'', CHR ''>'', CHR 0x27, CHR 0x22, CHR 0x5C]"

definition SanitizeForGitConfig :: "string \<Rightarrow> string" where
  "SanitizeForGitConfig v0 =
     (let v1 = ReplaceAll v0 (CHR 0x00) [];
          v2 = ReplaceAll v1 (CHR 0x0A) '' '';
          v3 = ReplaceAll v2 (CHR 0x0D) '' '';
          v4 = ReplaceAll v3 (CHR 0x09) '' '';
          v5 = foldl (\<lambda>v c. ReplaceAll v c []) v4 shellSpecials
      in TrimSpace v5)"

definition validate_BranchName :: "string \<Rightarrow> error option" where
  "validate_BranchName name =
     (if name = [] then Some (Errorf ''branch name cannot be empty'')
      else if length name > 255 then Some (Errorf ''branch name too long'')
      else if \<not> validBranchName name
        then Some (Errorf ''invalid branch name: contains unsafe characters'')
      else if HasPrefix name ''-'' \<or> HasSuffix name ''/''
        then Some (Errorf ''invalid branch name format'')
      else None)"

definition validate_RepoName :: "string \<Rightarrow> error option" where
  "validate_RepoName name =
     (if name = [] then Some (Errorf ''repository name cannot be empty'')
      else if length name > 100 then Some (Errorf ''repository name too long'')
      else if Contains name ''..'' then Some (Errorf ''repository name contains path traversal'')
      else if \<not> validRepoName name
        then Some (Errorf ''invalid repository name: contains unsafe characters'')
      else None)"

text \<open>
  Decimal notation of an integer, as \<open>strconv.Itoa\<close> and the verb \<open>%d\<close> write it.
\<close>

function decimal :: "int \<Rightarrow> string" where
  "decimal n =
     (if n < 10 then [''0123456789'' ! nat n]
      else decimal (n div 10) @ [''0123456789'' ! nat (n mod 10)])"
  by pat_completeness auto
termination
  by (relation "measure nat") auto

declare decimal.simps [simp del]

definition Itoa :: "int \<Rightarrow> string" where
  "Itoa i = (if i < 0 then CHR ''-'' # decimal (- i) else decimal i)"

text \<open>
  A Go \<open>int\<close> has 64 bits on the platforms the program is built for. PR numbers are
  modelled as unbounded integers; the functions that read a number from text check the
  64-bit range as Go does, and no arithmetic is done on the numbers.
\<close>

definition validate_PRNumber :: "int \<Rightarrow> error option" where
  "validate_PRNumber prNumber =
     (if prNumber \<le> 0 \<or> prNumber > 999999
      then Some (Errorf (''invalid PR number: '' @ Itoa prNumber))
      else None)"


subsection \<open>URLs\<close>

text \<open>
  \<open>validate.URL\<close> calls \<open>url.Parse\<close> of Go's standard library and reads three fields of the
  result: \<open>Scheme\<close>, \<open>User\<close> and \<open>Host\<close>. \<open>url_Parse\<close> models the library function for these
  fields and for the cases in which it returns an error, following package \<open>net/url\<close>:
  the fragment is cut off at the first \<open>#\<close>; a control byte is an error; the scheme is the
  longest prefix \<open>[A-Za-z][A-Za-z0-9+.-]*\<close> before a \<open>:\<close>, in lower case; the query is cut off
  at the first \<open>?\<close>; a rest that does not start with \<open>/\<close> is opaque when there is a scheme;
  an authority follows \<open>//\<close> and ends at the next \<open>/\<close>; user information ends at the last
  \<open>@\<close> of the authority; the host may end in a port and may use percent-escapes for bytes
  above 127 only; path and fragment must have well-formed percent-escapes.
\<close>

record ParsedURL =
  Scheme :: string
  User :: "string option"
  Host :: string

definition ishex :: "char \<Rightarrow> bool" where
  "ishex c = (inRange CHR ''0'' CHR ''9'' c \<or> inRange CHR ''a'' CHR ''f'' c
              \<or> inRange CHR ''A'' CHR ''F'' c)"

definition unhex :: "char \<Rightarrow> nat" where
  "unhex c =
     (if inRange CHR ''0'' CHR ''9'' c then of_char c - 48
      else if inRange CHR ''a'' CHR ''f'' c then of_char c - 97 + 10
      else if inRange CHR ''A'' CHR ''F'' c then of_char c - 65 + 10
      else 0)"

definition stringContainsCTLByte :: "string \<Rightarrow> bool" where
  "stringContainsCTLByte s = list_ex (\<lambda>c. (of_char c :: nat) < 32 \<or> c = CHR 0x7F) s"

text \<open>
  \<open>getScheme\<close>: the second argument holds, reversed, the bytes read so far; it is empty
  exactly at index 0.
\<close>

fun getSchemeFrom :: "string \<Rightarrow> string \<Rightarrow> string \<Rightarrow> error + string \<times> string" where
  "getSchemeFrom rawURL acc [] = Inr ([], rawURL)"
| "getSchemeFrom rawURL acc (c # cs) =
     (if inRange CHR ''a'' CHR ''z'' c \<or> inRange CHR ''A'' CHR ''Z'' c
        then getSchemeFrom rawURL (c # acc) cs
      else if inRange CHR ''0'' CHR ''9'' c \<or> c \<in> set ''+-.''
        then (if acc = [] then Inr ([], rawURL) else getSchemeFrom rawURL (c # acc) cs)
      else if c = CHR '':''
        then (if acc = [] then Inl ErrURLParse else Inr (rev acc, cs))
      else Inr ([], rawURL))"

definition getScheme :: "string \<Rightarrow> error + string \<times> string" where
  "getScheme rawURL = getSchemeFrom rawURL [] rawURL"

definition toLowerASCII :: "char \<Rightarrow> char" where
  "toLowerASCII c = (if inRange CHR ''A'' CHR ''Z'' c then char_of (of_char c + (32::nat)) else c)"

text \<open>
  Percent-escapes. \<open>escapesOK\<close> is the check of \<open>unescape\<close> in the modes for paths,
  fragments and user information: every \<open>%\<close> is followed by two hexadecimal digits.
  \<open>hostBytesOK\<close> is the check in the modes for hosts (\<open>zone = False\<close>) and for the zone
  of an IPv6 literal (\<open>zone = True\<close>); \<open>shouldEscapeHost\<close> is \<open>shouldEscape\<close> in host mode.
  \<open>unescapeBytes\<close> replaces the escapes of a string that passed the check.
\<close>

fun escapesOK :: "string \<Rightarrow> bool" where
  "escapesOK [] = True"
| "escapesOK (c # cs) =
     (if c = CHR ''%''
      then (case cs of h1 # h2 # rest \<Rightarrow> ishex h1 \<and> ishex h2 \<and> escapesOK rest | _ \<Rightarrow> False)
      else escapesOK cs)"

definition shouldEscapeHost :: "char \<Rightarrow> bool" where
  "shouldEscapeHost c =
     (\<not> (alnum c \<or> c \<in> set ''!$&()*+,;=:[]<>'' \<or> c = CHR 0x27 \<or> c = CHR 0x22
          \<or> c \<in> set ''-_.~''))"

fun hostBytesOK :: "bool \<Rightarrow> string \<Rightarrow> bool" where
  "hostBytesOK zone [] = True"
| "hostBytesOK zone (c # cs) =
     (if c = CHR ''%''
      then (case cs of
              h1 # h2 # rest \<Rightarrow>
                ishex h1 \<and> ishex h2
                \<and> (zone \<or> \<not> (unhex h1 < 8 \<and> [h1, h2] \<noteq> ''25''))
                \<and> (\<not> zone \<or>
                     \<not> ([h1, h2] \<noteq> ''25'' \<and> char_of (16 * unhex h1 + unhex h2) \<noteq> CHR '' ''
                        \<and> shouldEscapeHost (char_of (16 * unhex h1 + unhex h2))))
                \<and> hostBytesOK zone rest
            | _ \<Rightarrow> False)
      else if c \<noteq> CHR ''+'' \<and> (of_char c :: nat) < 128 \<and> shouldEscapeHost c then False
      else hostBytesOK zone cs)"

fun unescapeBytes :: "string \<Rightarrow> string" where
  "unescapeBytes [] = []"
| "unescapeBytes (c # cs) =
     (if c = CHR ''%''
      then (case cs of
              h1 # h2 # rest \<Rightarrow> char_of (16 * unhex h1 + unhex h2) # unescapeBytes rest
            | _ \<Rightarrow> c # cs)
      else c # unescapeBytes cs)"

definition validOptionalPort :: "string \<Rightarrow> bool" where
  "validOptionalPort port =
     (case port of
        [] \<Rightarrow> True
      | c # ds \<Rightarrow> c = CHR '':'' \<and> list_all (inRange CHR ''0'' CHR ''9'') ds)"

text \<open>
  The part of a string from the last occurrence of a byte on (\<open>s[strings.LastIndex(s, c):]\<close>),
  and the part before it; both are used only when the byte occurs.
\<close>

definition fromLast :: "char \<Rightarrow> string \<Rightarrow> string" where
  "fromLast c s = c # rev (takeWhile (\<lambda>x. x \<noteq> c) (rev s))"

definition beforeLast :: "char \<Rightarrow> string \<Rightarrow> string" where
  "beforeLast c s = rev (drop 1 (dropWhile (\<lambda>x. x \<noteq> c) (rev s)))"

text \<open>
  The index of the first occurrence of \<open>sub\<close> in \<open>s\<close> (\<open>strings.Index\<close>), \<open>None\<close> for \<open>-1\<close>.
\<close>

fun Index :: "string \<Rightarrow> string \<Rightarrow> nat option" where
  "Index [] sub = (if sub = [] then Some 0 else None)"
| "Index (c # cs) sub =
     (if HasPrefix (c # cs) sub then Some 0 else map_option Suc (Index cs sub))"

definition parseHost :: "string \<Rightarrow> error + string" where
  "parseHost host =
     (if HasPrefix host ''[''
      then (if CHR '']'' \<notin> set host then Inl ErrURLParse
            else if \<not> validOptionalPort (drop 1 (fromLast CHR '']'' host)) then Inl ErrURLParse
            else (let lit = beforeLast CHR '']'' host in
                  case Index lit ''%25'' of
                    Some zone \<Rightarrow>
                      (if hostBytesOK False (take zone lit) \<and> hostBytesOK True (drop zone lit)
                          \<and> hostBytesOK False (fromLast CHR '']'' host)
                       then Inr (unescapeBytes host) else Inl ErrURLParse)
                  | None \<Rightarrow>
                      (if hostBytesOK False host then Inr (unescapeBytes host)
                       else Inl ErrURLParse)))
      else if CHR '':'' \<in> set host \<and> \<not> validOptionalPort (fromLast CHR '':'' host)
        then Inl ErrURLParse
      else if hostBytesOK False host then Inr (unescapeBytes host)
      else Inl ErrURLParse)"

definition validUserinfo :: "string \<Rightarrow> bool" where
  "validUserinfo s =
     list_all (\<lambda>c. alnum c \<or> c \<in> set ''-._:~!$&()*+,;=%@'' \<or> c = CHR 0x27) s"

definition parseAuthority :: "string \<Rightarrow> error + string option \<times> string" where
  "parseAuthority authority =
     (let hasAt = (CHR ''@'' \<in> set authority);
          hostPart = (if hasAt then drop 1 (fromLast CHR ''@'' authority) else authority)
      in case parseHost hostPart of
           Inl err \<Rightarrow> Inl err
         | Inr host \<Rightarrow>
             (if \<not> hasAt then Inr (None, host)
              else (let userinfo = beforeLast CHR ''@'' authority in
                    if \<not> validUserinfo userinfo then Inl ErrURLParse
                    else if \<not> escapesOK userinfo then Inl ErrURLParse
                    else Inr (Some userinfo, host))))"

definition url_parse :: "string \<Rightarrow> error + ParsedURL" where
  "url_parse rawURL =
     (if stringContainsCTLByte rawURL then Inl ErrURLParse
      else if rawURL = ''*'' then Inr \<lparr>Scheme = [], User = None, Host = []\<rparr>
      else case getScheme rawURL of
             Inl err \<Rightarrow> Inl err
           | Inr (scheme0, rest0) \<Rightarrow>
               (let scheme = map toLowerASCII scheme0;
                    rest = takeWhile (\<lambda>c. c \<noteq> CHR ''?'') rest0
                in if \<not> HasPrefix rest ''/'' \<and> scheme \<noteq> []
                     then Inr \<lparr>Scheme = scheme, User = None, Host = []\<rparr>
                   else if \<not> HasPrefix rest ''/''
                           \<and> CHR '':'' \<in> set (takeWhile (\<lambda>c. c \<noteq> CHR ''/'') rest)
                     then Inl ErrURLParse
                   else if (scheme \<noteq> [] \<or> \<not> HasPrefix rest ''///'') \<and> HasPrefix rest ''//''
                     then (let authority = takeWhile (\<lambda>c. c \<noteq> CHR ''/'') (drop 2 rest);
                               path = dropWhile (\<lambda>c. c \<noteq> CHR ''/'') (drop 2 rest)
                           in case parseAuthority authority of
                                Inl err \<Rightarrow> Inl err
                              | Inr (user, host) \<Rightarrow>
                                  (if escapesOK path
                                   then Inr \<lparr>Scheme = scheme, User = user, Host = host\<rparr>
                                   else Inl ErrURLParse))
                   else if escapesOK rest
                     then Inr \<lparr>Scheme = scheme, User = None, Host = []\<rparr>
                   else Inl ErrURLParse))"

definition url_Parse :: "string \<Rightarrow> error + ParsedURL" where
  "url_Parse rawURL =
     (let u = takeWhile (\<lambda>c. c \<noteq> CHR ''#'') rawURL;
          frag = drop 1 (dropWhile (\<lambda>c. c \<noteq> CHR ''#'') rawURL)
      in case url_parse u of
           Inl err \<Rightarrow> Inl err
         | Inr url \<Rightarrow> (if escapesOK frag then Inr url else Inl ErrURLParse))"

definition validate_URL :: "string \<Rightarrow> error option" where
  "validate_URL urlStr =
     (if urlStr = [] then Some (Errorf ''URL cannot be empty'')
      else case url_Parse urlStr of
             Inl err \<Rightarrow> Some (Wrapf ''invalid URL format'' err)
           | Inr parsedURL \<Rightarrow>
               (if Scheme parsedURL \<noteq> ''https'' then Some (Errorf ''only HTTPS URLs are allowed'')
                else if User parsedURL \<noteq> None then Some (Errorf ''URL cannot contain credentials'')
                else if Host parsedURL \<noteq> ''github.com''
                  then Some (Errorf ''only github.com URLs are allowed'')
                else None))"

section \<open>Package git: the repository as the program sees it\<close>

text \<open>
  The program reads and changes the repository only by running \<open>git\<close>. The \<open>world\<close> holds
  what those runs depend on and what they change:
  \<^item> \<open>commonDir\<close>: what \<open>git rev-parse --git-common-dir\<close> prints, \<open>None\<close> when it fails, and
    \<open>cwd\<close>: the working directory of the process, \<open>None\<close> when \<open>os.Getwd\<close> fails;
  \<^item> \<open>localConfig\<close>: the repository's local configuration, from key to value (linked
    worktrees share it with the main worktree);
  \<^item> \<open>localBranches\<close>: the names under \<open>refs/heads\<close>;
  \<^item> \<open>worktreePorcelain\<close>: what \<open>git worktree list --porcelain\<close> prints, \<open>None\<close> when it fails;
  \<^item> \<open>evalSymlinks\<close>: \<open>filepath.EvalSymlinks\<close>, \<open>None\<close> when it fails;
  \<^item> \<open>invocations\<close>: the argument lists of the \<open>git\<close> commands that \<open>ExecuteCommands\<close> and
    \<open>SetConfig\<close> have started, in order;
  \<^item> \<open>fails\<close>: which command fails, given the commands started before it. It stands for
    everything outside the model (the network, the file system, the state of the refs).
  A command that fails changes nothing but the list of invocations. Of the commands that
  succeed, the model follows the effect of \<open>git [-C dir] config key value\<close> on the local
  configuration; the other effects of the commands (files, refs, worktrees) are not followed.
\<close>

record world =
  commonDir :: "string option"
  cwd :: "string option"
  localConfig :: "string \<rightharpoonup> string"
  localBranches :: "string list"
  worktreePorcelain :: "string option"
  evalSymlinks :: "string \<Rightarrow> string option"
  invocations :: "string list list"
  fails :: "string list list \<Rightarrow> string list \<Rightarrow> bool"

record Remote =
  Name :: string
  URL :: string

definition BranchExists :: "world \<Rightarrow> string \<Rightarrow> bool" where
  "BranchExists w branchName = (branchName \<in> set (localBranches w))"

text \<open>
  The arguments of a command without a leading \<open>-C dir\<close>, and the effect of a successful
  command on the configuration.
\<close>

definition gitSubcommand :: "string list \<Rightarrow> string list" where
  "gitSubcommand args =
     (case args of
        a # dir # rest \<Rightarrow> (if a = ''-C'' then rest else args)
      | _ \<Rightarrow> args)"

definition configEffect :: "string list \<Rightarrow> (string \<rightharpoonup> string) \<Rightarrow> (string \<rightharpoonup> string)" where
  "configEffect args cfg =
     (case gitSubcommand args of
        [c, key, v] \<Rightarrow> (if c = ''config'' then cfg(key \<mapsto> v) else cfg)
      | _ \<Rightarrow> cfg)"

definition runGit :: "world \<Rightarrow> string list \<Rightarrow> error option \<times> world" where
  "runGit w args =
     (if fails w (invocations w) args
      then (Some ErrExec, w\<lparr>invocations := invocations w @ [args]\<rparr>)
      else (None, w\<lparr>invocations := invocations w @ [args],
                    localConfig := configEffect args (localConfig w)\<rparr>))"

text \<open>\<open>strings.Join\<close>.\<close>

fun Join :: "string list \<Rightarrow> string \<Rightarrow> string" where
  "Join [] sep = []"
| "Join [x] sep = x"
| "Join (x # y # ys) sep = x @ sep @ Join (y # ys) sep"

fun ExecuteCommands :: "world \<Rightarrow> string list list \<Rightarrow> error option \<times> world" where
  "ExecuteCommands w [] = (None, w)"
| "ExecuteCommands w (args # cmdQueue) =
     (case runGit w args of
        (Some err, w') \<Rightarrow> (Some (Wrapf (''failed to execute git '' @ Join args '' '') err), w')
      | (None, w') \<Rightarrow> ExecuteCommands w' cmdQueue)"

text \<open>
  \<open>GetConfig\<close> runs \<open>git -C path config --local key\<close>, which fails when the key is not set,
  and trims the output. Reading does not change the world.
\<close>

definition GetConfig :: "world \<Rightarrow> string \<Rightarrow> string \<Rightarrow> error + string" where
  "GetConfig w path key =
     (case localConfig w key of
        None \<Rightarrow> Inl ErrExec
      | Some v \<Rightarrow> Inr (TrimSpace v))"

definition SetConfig :: "world \<Rightarrow> string \<Rightarrow> string \<Rightarrow> string \<Rightarrow> error option \<times> world" where
  "SetConfig w path key v = runGit w [''-C'', path, ''config'', key, v]"

section \<open>Package github: pull requests\<close>

record PullRequest =
  Number :: int
  Title :: string
  HeadRef :: string
  HeadRepoName :: string
  HeadRepoOwnerLogin :: string
  BaseRepoFullName :: string
  MaintainerCanModify :: bool

section \<open>Package worktree: creating a worktree\<close>

record CheckoutOptions =
  RecurseSubmodules :: bool
  Force :: bool
  Detach :: bool
  BranchName :: string

text \<open>The fields of \<open>repository.Repository\<close> (package \<open>go-gh\<close>).\<close>

record Repository =
  RepoHost :: string
  Owner :: string
  RepoName :: string

record Creator =
  remotes :: "Remote list"
  repo :: Repository

definition findBaseRemote :: "Creator \<Rightarrow> Remote option" where
  "findBaseRemote c =
     (case find (\<lambda>remote. Name remote = ''upstream'') (remotes c) of
        Some remote \<Rightarrow> Some remote
      | None \<Rightarrow>
          (case find (\<lambda>remote. Name remote = ''origin'') (remotes c) of
             Some remote \<Rightarrow> Some remote
           | None \<Rightarrow>
               (case remotes c of
                  remote # _ \<Rightarrow> Some remote
                | [] \<Rightarrow> None)))"

definition findHeadRemote :: "Creator \<Rightarrow> PullRequest \<Rightarrow> Remote option" where
  "findHeadRemote c pr =
     find (\<lambda>remote. Contains (URL remote) (HeadRepoOwnerLogin pr)
                    \<and> Contains (URL remote) (HeadRepoName pr)) (remotes c)"

definition cmdsForExistingRemote ::
  "world \<Rightarrow> Remote \<Rightarrow> PullRequest \<Rightarrow> CheckoutOptions \<Rightarrow> string \<Rightarrow> string
   \<Rightarrow> error + string list list" where
  "cmdsForExistingRemote w remote pr opts worktreePath branchName =
     (case validate_BranchName (HeadRef pr) of
        Some err \<Rightarrow> Inl (Wrapf ''invalid head ref'' err)
      | None \<Rightarrow>
     (case validate_BranchName branchName of
        Some err \<Rightarrow> Inl (Wrapf ''invalid branch name'' err)
      | None \<Rightarrow>
     (let remoteBranch = Name remote @ ''/'' @ HeadRef pr;
          refSpec = (if Detach opts then ''+refs/heads/'' @ HeadRef pr
                     else ''+refs/heads/'' @ HeadRef pr @ '':refs/remotes/'' @ remoteBranch);
          cmds = [[''fetch'', Name remote, refSpec, ''--no-tags'']]
      in if Detach opts
           then Inr (cmds @ [[''worktree'', ''add'', ''--detach'', worktreePath, ''FETCH_HEAD'']])
         else if BranchExists w branchName
           then (if Force opts
                 then Inr (cmds @
                        [[''worktree'', ''add'', ''--force'', worktreePath, branchName],
                         [''-C'', worktreePath, ''reset'', ''--hard'',
                          ''refs/remotes/'' @ remoteBranch]])
                 else Inr (cmds @
                        [[''worktree'', ''add'', worktreePath, branchName],
                         [''-C'', worktreePath, ''merge'', ''--ff-only'',
                          ''refs/remotes/'' @ remoteBranch]]))
         else Inr (cmds @
                [[''worktree'', ''add'', ''-b'', branchName, worktreePath, remoteBranch],
                 [''-C'', worktreePath, ''config'', ''branch.'' @ branchName @ ''.remote'',
                  Name remote],
                 [''-C'', worktreePath, ''config'', ''branch.'' @ branchName @ ''.merge'',
                  ''refs/heads/'' @ HeadRef pr]]))))"

definition cmdsForMissingRemote ::
  "PullRequest \<Rightarrow> Remote \<Rightarrow> CheckoutOptions \<Rightarrow> string \<Rightarrow> string \<Rightarrow> error + string list list" where
  "cmdsForMissingRemote pr baseRemote opts worktreePath branchName =
     (case validate_PRNumber (Number pr) of
        Some err \<Rightarrow> Inl (Wrapf ''invalid PR number'' err)
      | None \<Rightarrow>
     (case validate_BranchName branchName of
        Some err \<Rightarrow> Inl (Wrapf ''invalid branch name'' err)
      | None \<Rightarrow>
     (case validate_BranchName (HeadRef pr) of
        Some err \<Rightarrow> Inl (Wrapf ''invalid head ref'' err)
      | None \<Rightarrow>
     (let ref = ''refs/pull/'' @ Itoa (Number pr) @ ''/head'' in
      if Detach opts
        then Inr [[''fetch'', Name baseRemote, ref, ''--no-tags''],
                  [''worktree'', ''add'', ''--detach'', worktreePath, ''FETCH_HEAD'']]
      else
        (let fetchCmd = [''fetch'', Name baseRemote, ref @ '':'' @ branchName, ''--no-tags'']
                        @ (if Force opts then [''--force''] else []);
             cmds = [fetchCmd, [''worktree'', ''add'', worktreePath, branchName]];
             remoteName = Name baseRemote;
             tracking = (\<lambda>mergeRef.
               [[''-C'', worktreePath, ''config'', ''branch.'' @ branchName @ ''.remote'',
                 remoteName],
                [''-C'', worktreePath, ''config'', ''branch.'' @ branchName @ ''.merge'',
                 mergeRef]])
         in if MaintainerCanModify pr \<and> HeadRepoName pr \<noteq> []
            then
              (case validate_RepoName (HeadRepoName pr) of
                 Some err \<Rightarrow> Inl (Wrapf ''invalid head repo name'' err)
               | None \<Rightarrow>
              (case validate_RepoName (HeadRepoOwnerLogin pr) of
                 Some err \<Rightarrow> Inl (Wrapf ''invalid head repo owner'' err)
               | None \<Rightarrow>
              (let pushRemote = ''https://github.com/'' @ HeadRepoOwnerLogin pr @ ''/''
                                @ HeadRepoName pr
               in case validate_URL pushRemote of
                    Some err \<Rightarrow> Inl (Wrapf ''invalid push remote URL'' err)
                  | None \<Rightarrow>
                      Inr (cmds @
                        [[''-C'', worktreePath, ''config'',
                          ''branch.'' @ branchName @ ''.pushRemote'', pushRemote]]
                        @ tracking (''refs/heads/'' @ HeadRef pr)))))
            else Inr (cmds @ tracking ref))))))"

definition storePRMetadata ::
  "world \<Rightarrow> string \<Rightarrow> PullRequest \<Rightarrow> error option \<times> world" where
  "storePRMetadata w worktreePath pr =
     (case validate_BranchName (HeadRef pr) of
        Some err \<Rightarrow> (Some (Wrapf ''invalid branch name'' err), w)
      | None \<Rightarrow>
     (let branchName = HeadRef pr;
          sanitizedTitle = SanitizeForGitConfig (Title pr)
      in case validate_PRNumber (Number pr) of
           Some err \<Rightarrow> (Some (Wrapf ''invalid PR number'' err), w)
         | None \<Rightarrow>
        (case SetConfig w worktreePath (''branch.'' @ branchName @ ''.gh-worktree-pr-number'')
                (Itoa (Number pr)) of
           (Some err, w1) \<Rightarrow> (Some (Wrapf ''failed to set PR number config'' err), w1)
         | (None, w1) \<Rightarrow>
        (case SetConfig w1 worktreePath (''branch.'' @ branchName @ ''.gh-worktree-pr-title'')
                sanitizedTitle of
           (Some err, w2) \<Rightarrow> (Some (Wrapf ''failed to set PR title config'' err), w2)
         | (None, w2) \<Rightarrow> (None, w2)))))"

text \<open>
  \<open>Create\<close> in two steps: \<open>Create_cmdQueue\<close> is the queue of commands that \<open>Create\<close> has built
  when it reaches \<open>git.ExecuteCommands\<close> (or the error with which it returns before), and
  \<open>Create\<close> runs the queue and stores the metadata.
\<close>

definition Create_cmdQueue ::
  "Creator \<Rightarrow> world \<Rightarrow> string \<Rightarrow> PullRequest \<Rightarrow> CheckoutOptions \<Rightarrow> error + string list list" where
  "Create_cmdQueue c w worktreePath pr opts =
     (case findBaseRemote c of
        None \<Rightarrow> Inl (Errorf ''no suitable remote found'')
      | Some baseRemote \<Rightarrow>
     (let isCrossRepo = (HeadRepoOwnerLogin pr \<noteq> Owner (repo c));
          headRemote = (if isCrossRepo then findHeadRemote c pr else Some baseRemote);
          branchName = (if BranchName opts \<noteq> [] then BranchName opts else HeadRef pr);
          submodules = (if RecurseSubmodules opts
                        then [[''submodule'', ''sync'', ''--recursive''],
                              [''submodule'', ''update'', ''--init'', ''--recursive'']]
                        else [])
      in case headRemote of
           Some remote \<Rightarrow>
             (case cmdsForExistingRemote w remote pr opts worktreePath branchName of
                Inl err \<Rightarrow> Inl (Wrapf ''failed to create commands for existing remote'' err)
              | Inr cmds \<Rightarrow> Inr (cmds @ submodules))
         | None \<Rightarrow>
             (case cmdsForMissingRemote pr baseRemote opts worktreePath branchName of
                Inl err \<Rightarrow> Inl (Wrapf ''failed to create commands for missing remote'' err)
              | Inr cmds \<Rightarrow> Inr (cmds @ submodules))))"

definition Create ::
  "Creator \<Rightarrow> world \<Rightarrow> string \<Rightarrow> PullRequest \<Rightarrow> CheckoutOptions \<Rightarrow> error option \<times> world" where
  "Create c w worktreePath pr opts =
     (case Create_cmdQueue c w worktreePath pr opts of
        Inl err \<Rightarrow> (Some err, w)
      | Inr cmdQueue \<Rightarrow>
          (case ExecuteCommands w cmdQueue of
             (Some err, w') \<Rightarrow> (Some err, w')
           | (None, w') \<Rightarrow>
               (case storePRMetadata w' worktreePath pr of
                  (Some err, w'') \<Rightarrow> (Some (Wrapf ''failed to store PR metadata'' err), w'')
                | (None, w'') \<Rightarrow> (None, w''))))"

section \<open>Numbers in text\<close>

text \<open>
  \<open>strconv.Atoi\<close>: an optional sign and decimal digits, nothing else; the value must fit a
  64-bit \<open>int\<close>.
\<close>

definition digitsValue :: "string \<Rightarrow> int" where
  "digitsValue ds = foldl (\<lambda>n c. 10 * n + (of_char c - 48)) 0 ds"

definition Atoi :: "string \<Rightarrow> error + int" where
  "Atoi s =
     (let body = (if HasPrefix s ''-'' \<or> HasPrefix s ''+'' then drop 1 s else s)
      in if body = [] \<or> \<not> list_all (inRange CHR ''0'' CHR ''9'') body then Inl ErrSyntax
         else (let v = (if HasPrefix s ''-'' then - digitsValue body else digitsValue body)
               in if v < - (2 ^ 63) \<or> v > 2 ^ 63 - 1 then Inl ErrRange else Inr v))"

text \<open>
  \<open>fmt.Sscanf(str, "%d", &n)\<close> with one operand. The scanner skips leading white space, where
  a newline is an error; it then reads an optional sign and the longest run of the characters
  \<open>0123456789_\<close>, which must not be empty, and converts the token with \<open>strconv.ParseInt\<close> in
  base 10, which refuses an underscore and a value outside 64 bits. What follows the token
  is left unread and is no error. The result is \<open>Inr n\<close> when \<open>Sscanf\<close> returns \<open>1, nil\<close>.
\<close>

function skipSpace :: "string \<Rightarrow> string option" where
  "skipSpace s =
     (if HasPrefix s [CHR 0x0A] then None
      else if spaceWidth s = 0 then Some s
      else skipSpace (drop (spaceWidth s) s))"
  by pat_completeness auto
termination
  by (relation "measure length") (auto intro: spaceWidth_decreases)

declare skipSpace.simps [simp del]

definition Sscanf_d :: "string \<Rightarrow> error + int" where
  "Sscanf_d str =
     (case skipSpace str of
        None \<Rightarrow> Inl ErrScan
      | Some s \<Rightarrow>
          (let sign = (if HasPrefix s ''+'' \<or> HasPrefix s ''-'' then take 1 s else []);
               tok = takeWhile (\<lambda>c. inRange CHR ''0'' CHR ''9'' c \<or> c = CHR ''_'')
                       (drop (length sign) s)
           in if tok = [] then Inl ErrScan
              else (case Atoi (sign @ tok) of
                      Inl err \<Rightarrow> Inl ErrScan
                    | Inr n \<Rightarrow> Inr n)))"

section \<open>Package github: the identifier parser\<close>

definition ParsePRNumber :: "string \<Rightarrow> error + int" where
  "ParsePRNumber selector =
     (if Contains selector ''/pull/''
      then (case validate_URL selector of
              Some err \<Rightarrow> Inl (Wrapf ''invalid URL'' err)
            | None \<Rightarrow>
                (let parts = Split selector ''/pull/''
                 in if length parts \<noteq> 2 then Inl (Errorf ''invalid PR URL format'')
                    else (case Atoi (TrimSpace (parts ! 1)) of
                            Inl err \<Rightarrow> Inl (Wrapf ''invalid PR number in URL'' err)
                          | Inr prNumber \<Rightarrow>
                              (case validate_PRNumber prNumber of
                                 Some err \<Rightarrow> Inl err
                               | None \<Rightarrow> Inr prNumber))))
      else (case Atoi (TrimSpace selector) of
              Inl err \<Rightarrow> Inl (Wrapf ''invalid PR number format'' err)
            | Inr prNumber \<Rightarrow>
                (case validate_PRNumber prNumber of
                   Some err \<Rightarrow> Inl err
                 | None \<Rightarrow> Inr prNumber)))"

section \<open>Paths\<close>

text \<open>
  The functions of package \<open>path/filepath\<close> that the program calls, for a system whose
  separator is \<open>/\<close>. \<open>Clean\<close> drops empty and \<open>.\<close> elements, resolves \<open>..\<close> against the element
  before it, and drops \<open>..\<close> at the root; \<open>cleanElems\<close> keeps the elements read so far in
  reverse.
\<close>

fun cleanElems :: "bool \<Rightarrow> string list \<Rightarrow> string list \<Rightarrow> string list" where
  "cleanElems rooted st [] = rev st"
| "cleanElems rooted st (e # es) =
     (if e = ''..''
      then (case st of
              [] \<Rightarrow> (if rooted then cleanElems rooted [] es else cleanElems rooted [''..''] es)
            | e' # st' \<Rightarrow>
                (if e' = ''..'' then cleanElems rooted (''..'' # st) es
                 else cleanElems rooted st' es))
      else cleanElems rooted (e # st) es)"

definition Clean :: "string \<Rightarrow> string" where
  "Clean path =
     (if path = [] then ''.''
      else (let rooted = HasPrefix path ''/'';
                elems = cleanElems rooted []
                          (filter (\<lambda>e. e \<noteq> [] \<and> e \<noteq> ''.'') (Split path ''/''));
                out = (if rooted then ''/'' else []) @ Join elems ''/''
            in if out = [] then ''.'' else out))"

definition Dir :: "string \<Rightarrow> string" where
  "Dir path = Clean (rev (dropWhile (\<lambda>c. c \<noteq> CHR ''/'') (rev path)))"

definition Base :: "string \<Rightarrow> string" where
  "Base path =
     (if path = [] then ''.''
      else (let stripped = rev (dropWhile (\<lambda>c. c = CHR ''/'') (rev path));
                last_elem = rev (takeWhile (\<lambda>c. c \<noteq> CHR ''/'') (rev stripped))
            in if last_elem = [] then ''/'' else last_elem))"

definition IsAbs :: "string \<Rightarrow> bool" where
  "IsAbs path = HasPrefix path ''/''"

definition filepath_Join :: "string list \<Rightarrow> string" where
  "filepath_Join elem =
     (case dropWhile (\<lambda>e. e = []) elem of
        [] \<Rightarrow> []
      | rest \<Rightarrow> Clean (Join rest ''/''))"

definition GetRoot :: "world \<Rightarrow> error + string" where
  "GetRoot w =
     (case commonDir w of
        None \<Rightarrow> Inl (Wrapf ''failed to get git common dir'' ErrExec)
      | Some output \<Rightarrow>
          (let gitCommonDir = TrimSpace output
           in if IsAbs gitCommonDir then Inr (Dir gitCommonDir)
              else (case cwd w of
                      None \<Rightarrow> Inl (Wrapf ''failed to get current directory'' ErrExec)
                    | Some currentDir \<Rightarrow>
                        Inr (Dir (filepath_Join [currentDir, gitCommonDir])))))"

section \<open>Package worktree: the type of a worktree and promotion\<close>

definition GetWorktreeType :: "world \<Rightarrow> string \<Rightarrow> error + string" where
  "GetWorktreeType w branchName =
     (case GetRoot w of
        Inl err \<Rightarrow> Inl (Wrapf ''failed to get git root'' err)
      | Inr gitRoot \<Rightarrow>
          (case GetConfig w gitRoot (''branch.'' @ branchName @ ''.gh-worktree-type'') of
             Inl err \<Rightarrow>
               (case GetConfig w gitRoot
                       (''branch.'' @ branchName @ ''.gh-worktree-pr-number'') of
                  Inr prNumber \<Rightarrow> (if prNumber \<noteq> [] then Inr ''pr'' else Inr [])
                | Inl err' \<Rightarrow> Inr [])
           | Inr worktreeType \<Rightarrow> Inr (TrimSpace worktreeType)))"


definition SetWorktreeType :: "world \<Rightarrow> string \<Rightarrow> string \<Rightarrow> error option \<times> world" where
  "SetWorktreeType w branchName worktreeType =
     (case GetRoot w of
        Inl err \<Rightarrow> (Some (Wrapf ''failed to get git root'' err), w)
      | Inr gitRoot \<Rightarrow>
          SetConfig w gitRoot (''branch.'' @ branchName @ ''.gh-worktree-type'') worktreeType)"

text \<open>
  The GitHub side of \<open>promoteRun\<close>: \<open>currentRepository\<close> is \<open>repository.Current()\<close>,
  \<open>restClient\<close> tells whether \<open>api.DefaultRESTClient()\<close> succeeds, and \<open>getPulls\<close> and \<open>getPull\<close>
  are what \<open>client.Get\<close> decodes for a request path, a list of pull requests or one;
  \<open>None\<close> is an error. What \<open>promoteRun\<close> prints is not modelled.
\<close>

record github =
  currentRepository :: "Repository option"
  restClient :: bool
  getPulls :: "string \<Rightarrow> PullRequest list option"
  getPull :: "string \<Rightarrow> PullRequest option"


section \<open>Package worktree: listing worktrees\<close>

record Info =
  Path :: string
  Commit :: string
  Branch :: string
  PRNumber :: int
  InfoTitle :: string

text \<open>
  \<open>List\<close> reads the porcelain listing line by line. \<open>parseLines\<close> is its loop: the first
  argument is \<open>currentWorktree\<close> (\<open>None\<close> for \<open>nil\<close>), the second the worktrees appended so far.
\<close>

fun parseLines :: "Info option \<Rightarrow> Info list \<Rightarrow> string list \<Rightarrow> Info list" where
  "parseLines cur worktrees [] =
     (case cur of Some wt \<Rightarrow> worktrees @ [wt] | None \<Rightarrow> worktrees)"
| "parseLines cur worktrees (line # lines) =
     (if line = []
      then (case cur of
              Some wt \<Rightarrow> parseLines None (worktrees @ [wt]) lines
            | None \<Rightarrow> parseLines cur worktrees lines)
      else if HasPrefix line ''worktree ''
        then parseLines
               (Some \<lparr>Path = TrimPrefix line ''worktree '', Commit = [], Branch = [],
                      PRNumber = 0, InfoTitle = []\<rparr>) worktrees lines
      else if HasPrefix line ''HEAD ''
        then (case cur of
                Some wt \<Rightarrow>
                  parseLines (Some (wt\<lparr>Commit := TrimPrefix line ''HEAD ''\<rparr>)) worktrees lines
              | None \<Rightarrow> parseLines cur worktrees lines)
      else if HasPrefix line ''branch ''
        then (case cur of
                Some wt \<Rightarrow>
                  (let branchRef = TrimPrefix line ''branch ''
                   in parseLines
                        (Some (wt\<lparr>Branch := (if HasPrefix branchRef ''refs/heads/''
                                               then TrimPrefix branchRef ''refs/heads/''
                                               else branchRef)\<rparr>)) worktrees lines)
              | None \<Rightarrow> parseLines cur worktrees lines)
      else parseLines cur worktrees lines)"

definition List :: "world \<Rightarrow> error + Info list" where
  "List w =
     (case GetRoot w of
        Inl err \<Rightarrow> Inl (Wrapf ''failed to get git root'' err)
      | Inr gitRoot \<Rightarrow>
          (case worktreePorcelain w of
             None \<Rightarrow> Inl (Wrapf ''failed to get worktree list'' ErrExec)
           | Some output \<Rightarrow>
               Inr (parseLines None [] (Split (TrimSpace output) [CHR 0x0A]))))"

definition GetPRTitle :: "world \<Rightarrow> string \<Rightarrow> string \<Rightarrow> string" where
  "GetPRTitle w worktreePath branchName =
     (if branchName = [] then []
      else (case GetConfig w worktreePath (''branch.'' @ branchName @ ''.gh-worktree-pr-title'') of
              Inl err \<Rightarrow> []
            | Inr title \<Rightarrow> title))"

text \<open>
  A directory with its symbolic links resolved, or the directory itself when
  \<open>filepath.EvalSymlinks\<close> fails.
\<close>

definition resolvedDir :: "world \<Rightarrow> string \<Rightarrow> string" where
  "resolvedDir w dir = (case evalSymlinks w dir of Some d \<Rightarrow> d | None \<Rightarrow> dir)"

text \<open>
  The test on the name that both listings make: the base name starts with \<open>repoName-pr\<close>, is
  longer than that, and \<open>Sscanf\<close> reads a number from what follows. The result is the number
  read.
\<close>

definition prNumberByName :: "string \<Rightarrow> string \<Rightarrow> int option" where
  "prNumberByName repoName baseName =
     (let prPrefix = repoName @ ''-pr''
      in if HasPrefix baseName (repoName @ ''-pr'') \<and> length baseName > length prPrefix
         then (case Sscanf_d (drop (length prPrefix) baseName) of
                 Inr prNumber \<Rightarrow> Some prNumber
               | Inl err \<Rightarrow> None)
         else None)"

text \<open>
  The value of \<open>worktreeType, _ := GetWorktreeType(branch)\<close>: the empty string on an error.
\<close>

definition worktreeTypeOf :: "world \<Rightarrow> string \<Rightarrow> string" where
  "worktreeTypeOf w branchName =
     (case GetWorktreeType w branchName of Inr t \<Rightarrow> t | Inl err \<Rightarrow> [])"

text \<open>
  The body of the loop of \<open>ListPRWorktrees\<close> for one worktree: \<open>None\<close> when the worktree is
  skipped, else the entry that is appended.
\<close>

definition prWorktreeEntry :: "world \<Rightarrow> string \<Rightarrow> string \<Rightarrow> string \<Rightarrow> Info \<Rightarrow> Info option" where
  "prWorktreeEntry w repoName gitRoot parentDir wt =
     (if Path wt = gitRoot then None
      else if resolvedDir w (Dir (Path wt)) \<noteq> parentDir then None
      else (let baseName = Base (Path wt);
                byName = prNumberByName repoName baseName;
                wt1 = (case byName of Some prNumber \<Rightarrow> wt\<lparr>PRNumber := prNumber\<rparr> | None \<Rightarrow> wt);
                isPRByName = (byName \<noteq> None);
                isPRByMetadata = (worktreeTypeOf w (Branch wt) = ''pr'')
            in if isPRByName \<or> isPRByMetadata
               then (let wt2 = wt1\<lparr>InfoTitle := GetPRTitle w (Path wt) (Branch wt)\<rparr>
                     in if PRNumber wt2 = 0
                        then (case GetConfig w gitRoot
                                     (''branch.'' @ Branch wt @ ''.gh-worktree-pr-number'') of
                                Inr prNumberStr \<Rightarrow>
                                  (if prNumberStr \<noteq> []
                                   then (case Atoi (TrimSpace prNumberStr) of
                                           Inr prNum \<Rightarrow> Some (wt2\<lparr>PRNumber := prNum\<rparr>)
                                         | Inl err \<Rightarrow> Some wt2)
                                   else Some wt2)
                              | Inl err \<Rightarrow> Some wt2)
                        else Some wt2)
               else None))"

definition ListPRWorktrees :: "world \<Rightarrow> string \<Rightarrow> error + Info list" where
  "ListPRWorktrees w repoName =
     (case List w of
        Inl err \<Rightarrow> Inl err
      | Inr allWorktrees \<Rightarrow>
          (case GetRoot w of
             Inl err \<Rightarrow> Inl (Wrapf ''failed to get git root'' err)
           | Inr gitRoot \<Rightarrow>
               (let parentDir = resolvedDir w (Dir gitRoot)
                in Inr (List.map_filter (prWorktreeEntry w repoName gitRoot parentDir)
                          allWorktrees))))"

text \<open>The test of the loop of \<open>ListBranchWorktrees\<close>: whether the worktree is appended.\<close>

definition isBranchWorktree :: "world \<Rightarrow> string \<Rightarrow> string \<Rightarrow> string \<Rightarrow> Info \<Rightarrow> bool" where
  "isBranchWorktree w repoName gitRoot parentDir wt =
     (if Path wt = gitRoot then False
      else (let baseName = Base (Path wt)
            in if prNumberByName repoName baseName \<noteq> None then False
               else HasPrefix baseName (repoName @ ''-'')
                    \<and> resolvedDir w (Dir (Path wt)) = parentDir
                    \<and> (worktreeTypeOf w (Branch wt) = ''branch''
                        \<or> worktreeTypeOf w (Branch wt) = [])))"

definition ListBranchWorktrees :: "world \<Rightarrow> string \<Rightarrow> error + Info list" where
  "ListBranchWorktrees w repoName =
     (case List w of
        Inl err \<Rightarrow> Inl err
      | Inr allWorktrees \<Rightarrow>
          (case GetRoot w of
             Inl err \<Rightarrow> Inl (Wrapf ''failed to get git root'' err)
           | Inr gitRoot \<Rightarrow>
               (let parentDir = resolvedDir w (Dir gitRoot)
                in Inr (filter (isBranchWorktree w repoName gitRoot parentDir) allWorktrees))))"

definition GeneratePath :: "world \<Rightarrow> string \<Rightarrow> int \<Rightarrow> error + string" where
  "GeneratePath w repoName prNumber =
     (case GetRoot w of
        Inl err \<Rightarrow> Inl (Wrapf ''failed to get git root'' err)
      | Inr gitRoot \<Rightarrow>
          Inr (filepath_Join [Dir gitRoot, repoName @ ''-pr'' @ Itoa prNumber]))"

definition GeneratePathForBranch :: "world \<Rightarrow> string \<Rightarrow> string \<Rightarrow> error + string" where
  "GeneratePathForBranch w repoName branchName =
     (case GetRoot w of
        Inl err \<Rightarrow> Inl (Wrapf ''failed to get git root'' err)
      | Inr gitRoot \<Rightarrow>
          (let sanitizedBranchName = ReplaceAll branchName CHR ''/'' ''-''
           in Inr (filepath_Join [Dir gitRoot, repoName @ ''-'' @ sanitizedBranchName])))"

definition DetectWorktreeType :: "world \<Rightarrow> string \<Rightarrow> string" where
  "DetectWorktreeType w path =
     (if GetRoot w = Inr path then ''main''
      else (let baseName = Base path
            in if Contains baseName ''-pr'' \<and> length (Split baseName ''-pr'') = 2
                  \<and> \<not> isl (Atoi (Split baseName ''-pr'' ! 1))
               then ''pr''
               else ''branch''))"

section \<open>Properties of the validators\<close>

subsection \<open>Branch names\<close>

lemma inRange_lower:
  "inRange CHR ''a'' CHR ''z'' c \<longleftrightarrow> c \<in> set ''abcdefghijklmnopqrstuvwxyz''"
  by (cases c) (simp add: inRange_def)

lemma inRange_upper:
  "inRange CHR ''A'' CHR ''Z'' c \<longleftrightarrow> c \<in> set ''ABCDEFGHIJKLMNOPQRSTUVWXYZ''"
  by (cases c) (simp add: inRange_def)

lemma inRange_digit: "inRange CHR ''0'' CHR ''9'' c \<longleftrightarrow> c \<in> set ''0123456789''"
  by (cases c) (simp add: inRange_def)

lemma alnum_iff:
  "alnum c \<longleftrightarrow>
     c \<in> set (''abcdefghijklmnopqrstuvwxyz'' @ ''ABCDEFGHIJKLMNOPQRSTUVWXYZ'' @ ''0123456789'')"
  unfolding alnum_def inRange_lower inRange_upper inRange_digit set_append by blast

lemma HasPrefix_single: "HasPrefix s [c] \<longleftrightarrow> s \<noteq> [] \<and> hd s = c"
  by (cases s) auto

lemma HasSuffix_single: "HasSuffix s [c] \<longleftrightarrow> s \<noteq> [] \<and> last s = c"
  by (cases s rule: rev_cases) (auto simp: HasSuffix_def)

lemma validBranchName_iff:
  "validBranchName s \<longleftrightarrow>
     s \<noteq> [] \<and> set s \<subseteq> set (''abcdefghijklmnopqrstuvwxyz'' @ ''ABCDEFGHIJKLMNOPQRSTUVWXYZ''
                           @ ''0123456789'' @ ''._/-'')"
  unfolding validBranchName_def list_all_iff alnum_iff set_append by blast

text \<open>
  Claim C8. The branch-name validator returns no error exactly for the strings that are not
  empty, have at most 255 bytes, consist of the characters \<open>A-Z a-z 0-9 . _ / -\<close> only, do
  not start with \<open>-\<close> and do not end with \<open>/\<close>. Every other string gets an error. (A string
  of these characters is ASCII, so its bytes are its characters.)
\<close>

theorem BranchName_accepts_exactly:
  "validate_BranchName name = None \<longleftrightarrow>
     name \<noteq> [] \<and> length name \<le> 255
     \<and> set name \<subseteq> set (''abcdefghijklmnopqrstuvwxyz'' @ ''ABCDEFGHIJKLMNOPQRSTUVWXYZ''
                         @ ''0123456789'' @ ''._/-'')
     \<and> hd name \<noteq> CHR ''-'' \<and> last name \<noteq> CHR ''/''"
  unfolding validate_BranchName_def validBranchName_iff HasPrefix_single HasSuffix_single
  by auto

theorem BranchName_accepts_exactly_witness:
  "validate_BranchName ''feature/test-123'' = None
   \<and> validate_BranchName ''feature; rm -rf /'' \<noteq> None"
  using BranchName_accepts_exactly [of "''feature/test-123''"]
        BranchName_accepts_exactly [of "''feature; rm -rf /''"]
  by simp

subsection \<open>The sanitizer\<close>

text \<open>
  \<open>scrub\<close> is the part of \<open>SanitizeForGitConfig\<close> before the final \<open>TrimSpace\<close>, and
  \<open>replaced\<close> the set of bytes it replaces or removes; both are used in the proofs only.
\<close>

lemma TrimLeftSpace_suffix: "\<exists>p. s = p @ TrimLeftSpace s"
proof (induction s rule: TrimLeftSpace.induct)
  case (1 s)
  show ?case
  proof (cases "spaceWidth s = 0")
    case True
    then show ?thesis by (simp add: TrimLeftSpace.simps [of s])
  next
    case False
    with 1 obtain p where "drop (spaceWidth s) s = p @ TrimLeftSpace (drop (spaceWidth s) s)"
      by blast
    then have "s = (take (spaceWidth s) s @ p) @ TrimLeftSpace (drop (spaceWidth s) s)"
      by (metis append_assoc append_take_drop_id)
    with False show ?thesis by (metis TrimLeftSpace.simps)
  qed
qed

lemma TrimRightSpace_prefix: "\<exists>q. s = TrimRightSpace s @ q"
proof (induction s rule: TrimRightSpace.induct)
  case (1 s)
  show ?case
  proof (cases "lastSpaceWidth s = 0")
    case True
    then show ?thesis by (simp add: TrimRightSpace.simps [of s])
  next
    case False
    let ?t = "take (length s - lastSpaceWidth s) s"
    from 1 False obtain q where "?t = TrimRightSpace ?t @ q"
      by blast
    then have "s = TrimRightSpace ?t @ (q @ drop (length s - lastSpaceWidth s) s)"
      by (metis append_assoc append_take_drop_id)
    with False show ?thesis by (metis TrimRightSpace.simps)
  qed
qed

lemma spaceWidth_TrimLeftSpace: "spaceWidth (TrimLeftSpace s) = 0"
  by (induction s rule: TrimLeftSpace.induct) (metis TrimLeftSpace.simps)

lemma lastSpaceWidth_TrimRightSpace: "lastSpaceWidth (TrimRightSpace s) = 0"
  by (induction s rule: TrimRightSpace.induct) (metis TrimRightSpace.simps)

lemma HasPrefix_append: "HasPrefix s p \<Longrightarrow> HasPrefix (s @ q) p"
  by (induction s p rule: HasPrefix.induct) auto

lemma spaceWidth_0_iff: "spaceWidth s = 0 \<longleftrightarrow> (\<forall>w \<in> set spaceRunes. \<not> HasPrefix s w)"
proof
  assume "spaceWidth s = 0"
  show "\<forall>w \<in> set spaceRunes. \<not> HasPrefix s w"
  proof (cases "find (HasPrefix s) spaceRunes")
    case None
    then show ?thesis by (simp add: find_None_iff)
  next
    case (Some w)
    then have "w \<in> set spaceRunes" by (auto simp: find_Some_iff)
    then have "w \<noteq> []" by (rule spaceRunes_nonempty)
    with Some \<open>spaceWidth s = 0\<close> show ?thesis by (simp add: spaceWidth_def)
  qed
next
  assume "\<forall>w \<in> set spaceRunes. \<not> HasPrefix s w"
  then have "find (HasPrefix s) spaceRunes = None" by (simp add: find_None_iff)
  then show "spaceWidth s = 0" by (simp add: spaceWidth_def)
qed

lemma spaceWidth_prefix_0: "spaceWidth (s @ q) = 0 \<Longrightarrow> spaceWidth s = 0"
  unfolding spaceWidth_0_iff using HasPrefix_append by blast

lemma TrimSpace_fixed:
  assumes "spaceWidth s = 0" and "lastSpaceWidth s = 0"
  shows "TrimSpace s = s"
  using assms by (simp add: TrimSpace_def TrimLeftSpace.simps [of s] TrimRightSpace.simps [of s])

lemma TrimSpace_trimmed:
  "spaceWidth (TrimSpace s) = 0 \<and> lastSpaceWidth (TrimSpace s) = 0"
proof -
  obtain q where "TrimLeftSpace s = TrimRightSpace (TrimLeftSpace s) @ q"
    using TrimRightSpace_prefix by blast
  then have "spaceWidth (TrimRightSpace (TrimLeftSpace s)) = 0"
    using spaceWidth_prefix_0 spaceWidth_TrimLeftSpace by metis
  then show ?thesis by (simp add: TrimSpace_def lastSpaceWidth_TrimRightSpace)
qed

lemma TrimSpace_idem: "TrimSpace (TrimSpace s) = TrimSpace s"
  using TrimSpace_trimmed TrimSpace_fixed by blast

lemma set_TrimSpace: "set (TrimSpace s) \<subseteq> set s"
proof -
  obtain p where p: "s = p @ TrimLeftSpace s" using TrimLeftSpace_suffix by blast
  obtain q where q: "TrimLeftSpace s = TrimSpace s @ q"
    unfolding TrimSpace_def using TrimRightSpace_prefix by blast
  have "set s = set p \<union> set (TrimSpace s) \<union> set q"
    by (metis p q set_append Un_assoc)
  then show ?thesis by blast
qed

lemma set_ReplaceAll_remove: "set (ReplaceAll s c []) = set s - {c}"
  by (induction s) (auto simp: ReplaceAll_def)

lemma set_ReplaceAll_blank: "c \<noteq> CHR '' '' \<Longrightarrow> set (ReplaceAll s c '' '') - {CHR '' ''} = set s - {c, CHR '' ''}"
  by (induction s) (auto simp: ReplaceAll_def)

lemma ReplaceAll_absent: "c \<notin> set s \<Longrightarrow> ReplaceAll s c new = s"
  by (induction s) (auto simp: ReplaceAll_def)


lemma set_foldl_remove: "set (foldl (\<lambda>v c. ReplaceAll v c []) v cs) = set v - set cs"
  by (induction cs arbitrary: v) (auto simp: set_ReplaceAll_remove)

lemma foldl_remove_absent:
  "set v \<inter> set cs = {} \<Longrightarrow> foldl (\<lambda>v c. ReplaceAll v c []) v cs = v"
  by (induction cs arbitrary: v) (auto simp: ReplaceAll_absent)

definition replaced :: "char set" where
  "replaced = {CHR 0x00, CHR 0x0A, CHR 0x0D, CHR 0x09} \<union> set shellSpecials"

definition scrub :: "string \<Rightarrow> string" where
  "scrub v0 =
     (let v1 = ReplaceAll v0 (CHR 0x00) [];
          v2 = ReplaceAll v1 (CHR 0x0A) '' '';
          v3 = ReplaceAll v2 (CHR 0x0D) '' '';
          v4 = ReplaceAll v3 (CHR 0x09) '' ''
      in foldl (\<lambda>v c. ReplaceAll v c []) v4 shellSpecials)"

lemma Sanitize_scrub: "SanitizeForGitConfig s = TrimSpace (scrub s)"
  by (simp add: SanitizeForGitConfig_def scrub_def Let_def)

lemma set_ReplaceAll_blank_sub: "set (ReplaceAll s c '' '') \<subseteq> (set s - {c}) \<union> {CHR '' ''}"
  by (induction s) (auto simp: ReplaceAll_def)

lemma scrub_clean: "set (scrub s) \<inter> replaced = {}"
proof -
  let ?v1 = "ReplaceAll s (CHR 0x00) []"
  let ?v2 = "ReplaceAll ?v1 (CHR 0x0A) '' ''"
  let ?v3 = "ReplaceAll ?v2 (CHR 0x0D) '' ''"
  let ?v4 = "ReplaceAll ?v3 (CHR 0x09) '' ''"
  have 1: "CHR 0x00 \<notin> set ?v1" by (simp add: set_ReplaceAll_remove)
  have 2: "set ?v2 \<subseteq> (set ?v1 - {CHR 0x0A}) \<union> {CHR '' ''}" by (rule set_ReplaceAll_blank_sub)
  have 3: "set ?v3 \<subseteq> (set ?v2 - {CHR 0x0D}) \<union> {CHR '' ''}" by (rule set_ReplaceAll_blank_sub)
  have 4: "set ?v4 \<subseteq> (set ?v3 - {CHR 0x09}) \<union> {CHR '' ''}" by (rule set_ReplaceAll_blank_sub)
  have "set ?v4 \<inter> {CHR 0x00, CHR 0x0A, CHR 0x0D, CHR 0x09} = {}"
    using 1 2 3 4 by auto
  then have "(set ?v4 - set shellSpecials) \<inter> replaced = {}"
    unfolding replaced_def by blast
  then show ?thesis by (simp add: scrub_def Let_def set_foldl_remove)
qed

lemma scrub_absent: "set s \<inter> replaced = {} \<Longrightarrow> scrub s = s"
  by (simp add: scrub_def Let_def replaced_def ReplaceAll_absent foldl_remove_absent Int_Un_distrib)

text \<open>
  Claim C9. The title sanitizer is idempotent: sanitizing a sanitized string changes nothing.
\<close>

theorem SanitizeForGitConfig_idempotent:
  "SanitizeForGitConfig (SanitizeForGitConfig s) = SanitizeForGitConfig s"
proof -
  have "set (TrimSpace (scrub s)) \<inter> replaced = {}"
    using scrub_clean [of s] set_TrimSpace [of "scrub s"] by blast
  then have "scrub (TrimSpace (scrub s)) = TrimSpace (scrub s)"
    by (rule scrub_absent)
  then show ?thesis by (simp add: Sanitize_scrub TrimSpace_idem)
qed

section \<open>Properties of the worktree command synthesizer\<close>

subsection \<open>The push URL is always accepted\<close>

definition urlSafe :: "char \<Rightarrow> bool" where
  "urlSafe c = (alnum c \<or> c \<in> set ''._-/'')"

lemma urlSafe_facts:
  assumes "urlSafe c"
  shows "c \<noteq> CHR ''#''" "c \<noteq> CHR ''?''" "c \<noteq> CHR ''%''" "\<not> (of_char c :: nat) < 32" "c \<noteq> CHR 0x7F"
  using assms unfolding urlSafe_def alnum_iff by auto

lemma takeWhile_all: "\<forall>x \<in> set xs. P x \<Longrightarrow> takeWhile P xs = xs"
  by (induction xs) auto

lemma escapesOK_no_percent: "CHR ''%'' \<notin> set s \<Longrightarrow> escapesOK s"
  by (induction s rule: escapesOK.induct) auto

lemma parseAuthority_github: "parseAuthority ''github.com'' = Inr (None, ''github.com'')"
  by code_simp

lemma getScheme_https: "getScheme (''https:'' @ t) = Inr (''https'', t)"
  by (simp add: getScheme_def inRange_def)

lemma lower_https: "map toLowerASCII ''https'' = ''https''"
  by code_simp

lemma url_Parse_github:
  assumes "list_all urlSafe t"
  shows "url_Parse (''https://github.com/'' @ t)
         = Inr \<lparr>Scheme = ''https'', User = None, Host = ''github.com''\<rparr>"
proof -
  let ?s = "''https://github.com/'' @ t"
  have safe: "\<forall>c \<in> set t. urlSafe c" using assms by (simp add: list_all_iff)
  have nohash: "\<forall>c \<in> set ?s. c \<noteq> CHR ''#''" using safe urlSafe_facts(1) by auto
  have noq: "\<forall>c \<in> set (''//github.com/'' @ t). c \<noteq> CHR ''?''" using safe urlSafe_facts(2) by auto
  have nopct: "CHR ''%'' \<notin> set (CHR ''/'' # t)" using safe urlSafe_facts(3) by auto
  have noctl: "\<not> stringContainsCTLByte ?s"
    using safe urlSafe_facts(4,5) by (auto simp: stringContainsCTLByte_def list_ex_iff)
  have u: "takeWhile (\<lambda>c. c \<noteq> CHR ''#'') ?s = ?s" using nohash by (rule takeWhile_all)
  have f: "dropWhile (\<lambda>c. c \<noteq> CHR ''#'') ?s = []" using nohash by simp
  have q: "takeWhile (\<lambda>c. c \<noteq> CHR ''?'') (''//github.com/'' @ t) = ''//github.com/'' @ t"
    using noq by (rule takeWhile_all)
  have qt: "takeWhile (\<lambda>c. c \<noteq> CHR ''?'') t = t"
    using safe urlSafe_facts(2) by (auto intro: takeWhile_all)
  have gs: "getScheme ?s = Inr (''https'', ''//github.com/'' @ t)"
    using getScheme_https [of "''//github.com/'' @ t"] by simp
  have p: "url_parse ?s = Inr \<lparr>Scheme = ''https'', User = None, Host = ''github.com''\<rparr>"
    unfolding url_parse_def
    using noctl escapesOK_no_percent [OF nopct]
    by (simp add: gs [simplified] lower_https [simplified] qt
          parseAuthority_github [simplified])
  show ?thesis
    unfolding url_Parse_def Let_def u f by (simp add: p [simplified])
qed

lemma validRepoName_urlSafe: "validRepoName s \<Longrightarrow> list_all urlSafe s"
  by (auto simp: validRepoName_def urlSafe_def list_all_iff)

lemma validate_RepoName_None: "validate_RepoName s = None \<Longrightarrow> validRepoName s"
  by (auto simp: validate_RepoName_def split: if_splits)

lemma validate_URL_push:
  assumes "validate_RepoName owner = None" and "validate_RepoName name = None"
  shows "validate_URL (''https://github.com/'' @ owner @ ''/'' @ name) = None"
proof -
  have "list_all urlSafe (owner @ ''/'' @ name)"
    using assms validate_RepoName_None validRepoName_urlSafe
    by (auto simp: urlSafe_def)
  then have "url_Parse (''https://github.com/'' @ owner @ ''/'' @ name)
         = Inr \<lparr>Scheme = ''https'', User = None, Host = ''github.com''\<rparr>"
    by (rule url_Parse_github)
  then show ?thesis by (simp add: validate_URL_def)
qed

subsection \<open>Tracking configuration in the batch\<close>

text \<open>
  \<open>isConfigCmd\<close> recognises a command \<open>git [-C dir] config ...\<close>, \<open>setsConfig key\<close> a command
  \<open>git [-C dir] config key value\<close>. \<open>chosenBranch\<close> is the branch name that \<open>Create\<close> passes
  to the synthesizer.
\<close>

definition isConfigCmd :: "string list \<Rightarrow> bool" where
  "isConfigCmd args = (case gitSubcommand args of c # _ \<Rightarrow> c = ''config'' | [] \<Rightarrow> False)"

definition setsConfig :: "string \<Rightarrow> string list \<Rightarrow> bool" where
  "setsConfig key args =
     (case gitSubcommand args of [c, k, v] \<Rightarrow> c = ''config'' \<and> k = key | _ \<Rightarrow> False)"

definition chosenBranch :: "PullRequest \<Rightarrow> CheckoutOptions \<Rightarrow> string" where
  "chosenBranch pr opts = (if BranchName opts \<noteq> [] then BranchName opts else HeadRef pr)"

lemma existing_detach:
  "Detach opts \<Longrightarrow> cmdsForExistingRemote w remote pr opts path branch = Inr cmds
   \<Longrightarrow> \<not> list_ex isConfigCmd cmds"
  by (auto simp: cmdsForExistingRemote_def isConfigCmd_def gitSubcommand_def Let_def
           split: option.splits)

lemma missing_detach:
  "Detach opts \<Longrightarrow> cmdsForMissingRemote pr base opts path branch = Inr cmds
   \<Longrightarrow> \<not> list_ex isConfigCmd cmds"
  by (auto simp: cmdsForMissingRemote_def isConfigCmd_def gitSubcommand_def Let_def
           split: option.splits)

lemma existing_new_branch:
  "\<not> Detach opts \<Longrightarrow> \<not> BranchExists w branch
   \<Longrightarrow> cmdsForExistingRemote w remote pr opts path branch = Inr cmds
   \<Longrightarrow> length (filter (setsConfig (''branch.'' @ branch @ ''.remote'')) cmds) = 1
     \<and> length (filter (setsConfig (''branch.'' @ branch @ ''.merge'')) cmds) = 1"
  by (auto simp: cmdsForExistingRemote_def setsConfig_def gitSubcommand_def Let_def
           split: option.splits)

lemma missing_attached:
  "\<not> Detach opts
   \<Longrightarrow> cmdsForMissingRemote pr base opts path branch = Inr cmds
   \<Longrightarrow> length (filter (setsConfig (''branch.'' @ branch @ ''.remote'')) cmds) = 1
     \<and> length (filter (setsConfig (''branch.'' @ branch @ ''.merge'')) cmds) = 1"
  by (auto simp: cmdsForMissingRemote_def setsConfig_def gitSubcommand_def Let_def
           split: option.splits if_splits)

lemma queue_detach:
  assumes "Detach opts" and "Create_cmdQueue c w path pr opts = Inr q"
  shows "\<not> list_ex isConfigCmd q"
proof -
  have sub: "\<not> list_ex isConfigCmd
               (if RecurseSubmodules opts
                then [[''submodule'', ''sync'', ''--recursive''],
                      [''submodule'', ''update'', ''--init'', ''--recursive'']]
                else [])"
    by (simp add: isConfigCmd_def gitSubcommand_def)
  from assms(2) obtain base cmds where
    q: "q = cmds @ (if RecurseSubmodules opts
                then [[''submodule'', ''sync'', ''--recursive''],
                      [''submodule'', ''update'', ''--init'', ''--recursive'']]
                else [])"
    and cmds: "(\<exists>remote. cmdsForExistingRemote w remote pr opts path (chosenBranch pr opts) = Inr cmds)
               \<or> cmdsForMissingRemote pr base opts path (chosenBranch pr opts) = Inr cmds"
    unfolding Create_cmdQueue_def Let_def chosenBranch_def
    by (auto split: option.splits sum.splits if_splits)
  from cmds assms(1) have "\<not> list_ex isConfigCmd cmds"
    using existing_detach missing_detach by blast
  with sub q show ?thesis by (auto simp: list_ex_iff split: if_splits)
qed

lemma queue_new_branch:
  assumes "\<not> Detach opts" and "\<not> BranchExists w (chosenBranch pr opts)"
    and "Create_cmdQueue c w path pr opts = Inr q"
  shows "length (filter (setsConfig (''branch.'' @ chosenBranch pr opts @ ''.remote'')) q) = 1
       \<and> length (filter (setsConfig (''branch.'' @ chosenBranch pr opts @ ''.merge'')) q) = 1"
proof -
  let ?sub = "(if RecurseSubmodules opts
                then [[''submodule'', ''sync'', ''--recursive''],
                      [''submodule'', ''update'', ''--init'', ''--recursive'']]
                else [])"
  have sub: "filter (setsConfig key) ?sub = []" for key
    by (simp add: setsConfig_def gitSubcommand_def)
  from assms(3) obtain base cmds where
    q: "q = cmds @ ?sub"
    and cmds: "(\<exists>remote. cmdsForExistingRemote w remote pr opts path (chosenBranch pr opts) = Inr cmds)
               \<or> cmdsForMissingRemote pr base opts path (chosenBranch pr opts) = Inr cmds"
    unfolding Create_cmdQueue_def Let_def chosenBranch_def
    by (auto split: option.splits sum.splits if_splits)
  from cmds assms(1,2)
  have "length (filter (setsConfig (''branch.'' @ chosenBranch pr opts @ ''.remote'')) cmds) = 1
       \<and> length (filter (setsConfig (''branch.'' @ chosenBranch pr opts @ ''.merge'')) cmds) = 1"
    using existing_new_branch missing_attached by blast
  then show ?thesis unfolding q filter_append sub by simp
qed

text \<open>
  Claim C1. With \<open>Detach\<close> set, a batch of commands that the synthesizer returns holds no
  \<open>config\<close> command at all, so no \<open>config branch.<name>.remote\<close> and no
  \<open>config branch.<name>.merge\<close>; this holds for both synthesis branches and for the whole
  queue of \<open>Create\<close>, submodule commands included. Without \<open>Detach\<close>, when the local branch
  does not exist yet, a returned batch holds exactly one command that sets
  \<open>branch.<name>.remote\<close> and exactly one that sets \<open>branch.<name>.merge\<close> (in the branch for a
  missing head remote this does not depend on whether the local branch exists).
\<close>

theorem tracking_config_commands:
  "(Detach opts \<longrightarrow>
      (\<forall>cmds. cmdsForExistingRemote w remote pr opts path branch = Inr cmds
              \<longrightarrow> \<not> list_ex isConfigCmd cmds)
    \<and> (\<forall>cmds. cmdsForMissingRemote pr base opts path branch = Inr cmds
              \<longrightarrow> \<not> list_ex isConfigCmd cmds)
    \<and> (\<forall>q. Create_cmdQueue c w path pr opts = Inr q \<longrightarrow> \<not> list_ex isConfigCmd q))
   \<and> (\<not> Detach opts \<and> \<not> BranchExists w branch \<longrightarrow>
      (\<forall>cmds. cmdsForExistingRemote w remote pr opts path branch = Inr cmds
              \<longrightarrow> length (filter (setsConfig (''branch.'' @ branch @ ''.remote'')) cmds) = 1
                \<and> length (filter (setsConfig (''branch.'' @ branch @ ''.merge'')) cmds) = 1)
    \<and> (\<forall>cmds. cmdsForMissingRemote pr base opts path branch = Inr cmds
              \<longrightarrow> length (filter (setsConfig (''branch.'' @ branch @ ''.remote'')) cmds) = 1
                \<and> length (filter (setsConfig (''branch.'' @ branch @ ''.merge'')) cmds) = 1))
   \<and> (\<not> Detach opts \<and> \<not> BranchExists w (chosenBranch pr opts) \<longrightarrow>
      (\<forall>q. Create_cmdQueue c w path pr opts = Inr q
        \<longrightarrow> length (filter (setsConfig (''branch.'' @ chosenBranch pr opts @ ''.remote'')) q) = 1
          \<and> length (filter (setsConfig (''branch.'' @ chosenBranch pr opts @ ''.merge'')) q) = 1))"
  by (intro conjI impI allI;
      blast dest: existing_detach missing_detach queue_detach existing_new_branch
                  missing_attached queue_new_branch)

subsection \<open>The base remote\<close>

text \<open>Values used in the examples.\<close>

definition exampleWorld :: world where
  "exampleWorld =
     \<lparr>commonDir = Some ''/home/u/my-repo/.git'', cwd = Some ''/home/u/my-repo'',
      localConfig = Map.empty, localBranches = [''main''],
      worktreePorcelain = Some ''worktree /home/u/my-repo'',
      evalSymlinks = Some, invocations = [], fails = (\<lambda>started args. False)\<rparr>"

definition examplePR :: PullRequest where
  "examplePR =
     \<lparr>Number = 42, Title = ''Fix $(parser); again'', HeadRef = ''feature'',
      HeadRepoName = ''my-repo'', HeadRepoOwnerLogin = ''alice'',
      BaseRepoFullName = ''octo/my-repo'', MaintainerCanModify = True\<rparr>"

definition exampleCreator :: Creator where
  "exampleCreator =
     \<lparr>remotes = [\<lparr>Name = ''origin'', URL = ''https://github.com/octo/my-repo.git''\<rparr>],
      repo = \<lparr>RepoHost = ''github.com'', Owner = ''octo'', RepoName = ''my-repo''\<rparr>\<rparr>"

definition attached :: CheckoutOptions where
  "attached = \<lparr>RecurseSubmodules = False, Force = False, Detach = False, BranchName = []\<rparr>"

definition detached :: CheckoutOptions where
  "detached = \<lparr>RecurseSubmodules = True, Force = False, Detach = True, BranchName = []\<rparr>"


text \<open>
  Claim C2. The base remote is a remote named \<open>upstream\<close> when the list has one; else a remote
  named \<open>origin\<close> when the list has one; else the first remote of the list. With an empty list
  there is no base remote, and \<open>Create\<close> fails with \<open>no suitable remote found\<close>: it has built
  no queue and leaves the world as it was, so no command has been started.
\<close>

theorem findBaseRemote_preference:
  "(list_ex (\<lambda>r. Name r = ''upstream'') (remotes c) \<longrightarrow>
      (\<exists>r \<in> set (remotes c). findBaseRemote c = Some r \<and> Name r = ''upstream''))
   \<and> (\<not> list_ex (\<lambda>r. Name r = ''upstream'') (remotes c)
       \<and> list_ex (\<lambda>r. Name r = ''origin'') (remotes c) \<longrightarrow>
      (\<exists>r \<in> set (remotes c). findBaseRemote c = Some r \<and> Name r = ''origin''))
   \<and> (\<not> list_ex (\<lambda>r. Name r = ''upstream'') (remotes c)
       \<and> \<not> list_ex (\<lambda>r. Name r = ''origin'') (remotes c) \<and> remotes c \<noteq> [] \<longrightarrow>
      findBaseRemote c = Some (hd (remotes c)))
   \<and> (remotes c = [] \<longrightarrow>
      findBaseRemote c = None
      \<and> Create_cmdQueue c w path pr opts = Inl (Errorf ''no suitable remote found'')
      \<and> Create c w path pr opts = (Some (Errorf ''no suitable remote found''), w))"
proof (intro conjI impI)
  assume "list_ex (\<lambda>r. Name r = ''upstream'') (remotes c)"
  then obtain r where "find (\<lambda>r. Name r = ''upstream'') (remotes c) = Some r"
    by (cases "find (\<lambda>r. Name r = ''upstream'') (remotes c)") (auto simp: find_None_iff list_ex_iff)
  moreover from this have "r \<in> set (remotes c) \<and> Name r = ''upstream''"
    by (auto simp: find_Some_iff)
  ultimately show "\<exists>r \<in> set (remotes c). findBaseRemote c = Some r \<and> Name r = ''upstream''"
    by (auto simp: findBaseRemote_def)
next
  assume a: "\<not> list_ex (\<lambda>r. Name r = ''upstream'') (remotes c)
             \<and> list_ex (\<lambda>r. Name r = ''origin'') (remotes c)"
  then have up: "find (\<lambda>r. Name r = ''upstream'') (remotes c) = None"
    by (simp add: find_None_iff list_ex_iff)
  from a obtain r where "find (\<lambda>r. Name r = ''origin'') (remotes c) = Some r"
    by (cases "find (\<lambda>r. Name r = ''origin'') (remotes c)") (auto simp: find_None_iff list_ex_iff)
  moreover from this have "r \<in> set (remotes c) \<and> Name r = ''origin''"
    by (auto simp: find_Some_iff)
  ultimately show "\<exists>r \<in> set (remotes c). findBaseRemote c = Some r \<and> Name r = ''origin''"
    using up by (auto simp: findBaseRemote_def)
next
  assume a: "\<not> list_ex (\<lambda>r. Name r = ''upstream'') (remotes c)
             \<and> \<not> list_ex (\<lambda>r. Name r = ''origin'') (remotes c) \<and> remotes c \<noteq> []"
  then have "find (\<lambda>r. Name r = ''upstream'') (remotes c) = None"
    and "find (\<lambda>r. Name r = ''origin'') (remotes c) = None"
    by (simp_all add: find_None_iff list_ex_iff)
  with a show "findBaseRemote c = Some (hd (remotes c))"
    by (cases "remotes c") (simp_all add: findBaseRemote_def)
next
  assume e: "remotes c = []"
  then show n: "findBaseRemote c = None" by (simp add: findBaseRemote_def)
  then show q: "Create_cmdQueue c w path pr opts = Inl (Errorf ''no suitable remote found'')"
    by (simp add: Create_cmdQueue_def)
  then show "Create c w path pr opts = (Some (Errorf ''no suitable remote found''), w)"
    by (simp add: Create_def)
qed

subsection \<open>The branch for a missing head remote\<close>

text \<open>
  Claim C3. The branch for a missing head remote, without \<open>Detach\<close>, for a valid PR number
  and valid branch names. If the maintainer may modify the PR and the head repository has a
  name, and that name and the owner pass \<open>validate.RepoName\<close>, the batch is: the fetch, the
  \<open>worktree add\<close>, the push URL \<open>https://github.com/<owner>/<repo>\<close> as
  \<open>branch.<name>.pushRemote\<close>, the base remote's name as \<open>branch.<name>.remote\<close>, and
  \<open>refs/heads/<head-branch>\<close> as \<open>branch.<name>.merge\<close> (the URL always passes
  \<open>validate.URL\<close> then). If the name or the owner does not pass, there is no batch. Otherwise
  the batch is the fetch, the \<open>worktree add\<close>, the base remote's name as
  \<open>branch.<name>.remote\<close>, and \<open>refs/pull/<number>/head\<close> as \<open>branch.<name>.merge\<close>.
\<close>

theorem missing_remote_tracking:
  assumes "\<not> Detach opts"
    and "validate_PRNumber (Number pr) = None"
    and "validate_BranchName branch = None"
    and "validate_BranchName (HeadRef pr) = None"
  shows
   "(MaintainerCanModify pr \<and> HeadRepoName pr \<noteq> []
       \<and> validate_RepoName (HeadRepoName pr) = None
       \<and> validate_RepoName (HeadRepoOwnerLogin pr) = None \<longrightarrow>
     cmdsForMissingRemote pr base opts path branch =
       Inr [[''fetch'', Name base, ''refs/pull/'' @ Itoa (Number pr) @ ''/head:'' @ branch,
             ''--no-tags''] @ (if Force opts then [''--force''] else []),
            [''worktree'', ''add'', path, branch],
            [''-C'', path, ''config'', ''branch.'' @ branch @ ''.pushRemote'',
             ''https://github.com/'' @ HeadRepoOwnerLogin pr @ ''/'' @ HeadRepoName pr],
            [''-C'', path, ''config'', ''branch.'' @ branch @ ''.remote'', Name base],
            [''-C'', path, ''config'', ''branch.'' @ branch @ ''.merge'',
             ''refs/heads/'' @ HeadRef pr]])
    \<and> (MaintainerCanModify pr \<and> HeadRepoName pr \<noteq> []
       \<and> (validate_RepoName (HeadRepoName pr) \<noteq> None
           \<or> validate_RepoName (HeadRepoOwnerLogin pr) \<noteq> None) \<longrightarrow>
     isl (cmdsForMissingRemote pr base opts path branch))
    \<and> (\<not> (MaintainerCanModify pr \<and> HeadRepoName pr \<noteq> []) \<longrightarrow>
     cmdsForMissingRemote pr base opts path branch =
       Inr [[''fetch'', Name base, ''refs/pull/'' @ Itoa (Number pr) @ ''/head:'' @ branch,
             ''--no-tags''] @ (if Force opts then [''--force''] else []),
            [''worktree'', ''add'', path, branch],
            [''-C'', path, ''config'', ''branch.'' @ branch @ ''.remote'', Name base],
            [''-C'', path, ''config'', ''branch.'' @ branch @ ''.merge'',
             ''refs/pull/'' @ Itoa (Number pr) @ ''/head'']])"
proof (intro conjI impI)
  assume a: "MaintainerCanModify pr \<and> HeadRepoName pr \<noteq> []
       \<and> validate_RepoName (HeadRepoName pr) = None
       \<and> validate_RepoName (HeadRepoOwnerLogin pr) = None"
  then have "validate_URL (''https://github.com/'' @ HeadRepoOwnerLogin pr @ ''/''
                           @ HeadRepoName pr) = None"
    using validate_URL_push by blast
  with a assms show "cmdsForMissingRemote pr base opts path branch =
       Inr [[''fetch'', Name base, ''refs/pull/'' @ Itoa (Number pr) @ ''/head:'' @ branch,
             ''--no-tags''] @ (if Force opts then [''--force''] else []),
            [''worktree'', ''add'', path, branch],
            [''-C'', path, ''config'', ''branch.'' @ branch @ ''.pushRemote'',
             ''https://github.com/'' @ HeadRepoOwnerLogin pr @ ''/'' @ HeadRepoName pr],
            [''-C'', path, ''config'', ''branch.'' @ branch @ ''.remote'', Name base],
            [''-C'', path, ''config'', ''branch.'' @ branch @ ''.merge'',
             ''refs/heads/'' @ HeadRef pr]]"
    by (simp add: cmdsForMissingRemote_def Let_def)
next
  assume "MaintainerCanModify pr \<and> HeadRepoName pr \<noteq> []
       \<and> (validate_RepoName (HeadRepoName pr) \<noteq> None
           \<or> validate_RepoName (HeadRepoOwnerLogin pr) \<noteq> None)"
  with assms show "isl (cmdsForMissingRemote pr base opts path branch)"
    by (auto simp: cmdsForMissingRemote_def Let_def split: option.splits)
next
  assume "\<not> (MaintainerCanModify pr \<and> HeadRepoName pr \<noteq> [])"
  with assms show "cmdsForMissingRemote pr base opts path branch =
       Inr [[''fetch'', Name base, ''refs/pull/'' @ Itoa (Number pr) @ ''/head:'' @ branch,
             ''--no-tags''] @ (if Force opts then [''--force''] else []),
            [''worktree'', ''add'', path, branch],
            [''-C'', path, ''config'', ''branch.'' @ branch @ ''.remote'', Name base],
            [''-C'', path, ''config'', ''branch.'' @ branch @ ''.merge'',
             ''refs/pull/'' @ Itoa (Number pr) @ ''/head'']]"
    by (auto simp: cmdsForMissingRemote_def Let_def)
qed

lemma ex_vals:
  "validate_PRNumber (Number examplePR) = None"
  "validate_BranchName ''feature'' = None"
  "validate_BranchName (HeadRef examplePR) = None"
  "validate_RepoName (HeadRepoName examplePR) = None"
  "validate_RepoName (HeadRepoOwnerLogin examplePR) = None"
  by code_simp+

theorem missing_remote_tracking_witness:
  "\<not> Detach attached
   \<and> validate_PRNumber (Number examplePR) = None
   \<and> validate_BranchName ''feature'' = None
   \<and> validate_BranchName (HeadRef examplePR) = None
   \<and> MaintainerCanModify examplePR \<and> HeadRepoName examplePR \<noteq> []
   \<and> validate_RepoName (HeadRepoName examplePR) = None
   \<and> validate_RepoName (HeadRepoOwnerLogin examplePR) = None
   \<and> cmdsForMissingRemote examplePR \<lparr>Name = ''origin'', URL = ''https://github.com/octo/my-repo.git''\<rparr>
        attached ''/home/u/my-repo-pr42'' ''feature'' =
      Inr [[''fetch'', ''origin'', ''refs/pull/42/head:feature'', ''--no-tags''],
           [''worktree'', ''add'', ''/home/u/my-repo-pr42'', ''feature''],
           [''-C'', ''/home/u/my-repo-pr42'', ''config'', ''branch.feature.pushRemote'',
            ''https://github.com/alice/my-repo''],
           [''-C'', ''/home/u/my-repo-pr42'', ''config'', ''branch.feature.remote'', ''origin''],
           [''-C'', ''/home/u/my-repo-pr42'', ''config'', ''branch.feature.merge'',
            ''refs/heads/feature'']]"
proof -
  have d: "\<not> Detach attached" by (simp add: attached_def)
  have i: "Itoa 42 = ''42''" by code_simp
  have m: "MaintainerCanModify examplePR \<and> HeadRepoName examplePR \<noteq> []"
    by (simp add: examplePR_def)
  show ?thesis
    using missing_remote_tracking [OF d ex_vals(1) ex_vals(2) ex_vals(3),
            of "\<lparr>Name = ''origin'', URL = ''https://github.com/octo/my-repo.git''\<rparr>"
               "''/home/u/my-repo-pr42''"]
          d m ex_vals
    by (simp add: examplePR_def attached_def i)
qed

definition originRemote :: Remote where
  "originRemote = \<lparr>Name = ''origin'', URL = ''https://github.com/octo/my-repo.git''\<rparr>"

definition upstreamRemote :: Remote where
  "upstreamRemote = \<lparr>Name = ''upstream'', URL = ''https://github.com/up/my-repo.git''\<rparr>"

lemma example_queues:
  "Create_cmdQueue exampleCreator exampleWorld ''/home/u/my-repo-pr42'' examplePR detached =
     Inr [[''fetch'', ''origin'', ''refs/pull/42/head'', ''--no-tags''],
          [''worktree'', ''add'', ''--detach'', ''/home/u/my-repo-pr42'', ''FETCH_HEAD''],
          [''submodule'', ''sync'', ''--recursive''],
          [''submodule'', ''update'', ''--init'', ''--recursive'']]"
  "cmdsForExistingRemote exampleWorld originRemote examplePR attached
       ''/home/u/my-repo-pr42'' ''feature'' =
     Inr [[''fetch'', ''origin'', ''+refs/heads/feature:refs/remotes/origin/feature'',
           ''--no-tags''],
          [''worktree'', ''add'', ''-b'', ''feature'', ''/home/u/my-repo-pr42'',
           ''origin/feature''],
          [''-C'', ''/home/u/my-repo-pr42'', ''config'', ''branch.feature.remote'', ''origin''],
          [''-C'', ''/home/u/my-repo-pr42'', ''config'', ''branch.feature.merge'',
           ''refs/heads/feature'']]"
  by code_simp+

theorem tracking_config_commands_witness:
  "Detach detached
   \<and> (\<exists>q. Create_cmdQueue exampleCreator exampleWorld ''/home/u/my-repo-pr42'' examplePR detached
            = Inr q \<and> \<not> list_ex isConfigCmd q)
   \<and> \<not> Detach attached \<and> \<not> BranchExists exampleWorld ''feature''
   \<and> (\<exists>cmds. cmdsForExistingRemote exampleWorld originRemote examplePR attached
                 ''/home/u/my-repo-pr42'' ''feature'' = Inr cmds
         \<and> length (filter (setsConfig (''branch.'' @ ''feature'' @ ''.remote'')) cmds) = 1
         \<and> length (filter (setsConfig (''branch.'' @ ''feature'' @ ''.merge'')) cmds) = 1)"
proof -
  have d: "Detach detached" by (simp add: detached_def)
  have a: "\<not> Detach attached" by (simp add: attached_def)
  have b: "\<not> BranchExists exampleWorld ''feature''"
    by (simp add: BranchExists_def exampleWorld_def)
  from d tracking_config_commands
         [where opts = detached and c = exampleCreator and w = exampleWorld
            and path = "''/home/u/my-repo-pr42''" and pr = examplePR]
  have 1: "\<exists>q. Create_cmdQueue exampleCreator exampleWorld ''/home/u/my-repo-pr42'' examplePR
                 detached = Inr q \<and> \<not> list_ex isConfigCmd q"
    using example_queues(1) by blast
  from a b tracking_config_commands
         [where opts = attached and w = exampleWorld and remote = originRemote
            and path = "''/home/u/my-repo-pr42''" and pr = examplePR and branch = "''feature''"]
  have 2: "\<exists>cmds. cmdsForExistingRemote exampleWorld originRemote examplePR attached
                 ''/home/u/my-repo-pr42'' ''feature'' = Inr cmds
         \<and> length (filter (setsConfig (''branch.'' @ ''feature'' @ ''.remote'')) cmds) = 1
         \<and> length (filter (setsConfig (''branch.'' @ ''feature'' @ ''.merge'')) cmds) = 1"
    using example_queues(2) by blast
  from d a b 1 2 show ?thesis by blast
qed

theorem findBaseRemote_preference_witness:
  "findBaseRemote \<lparr>remotes = [originRemote, upstreamRemote], repo = repo exampleCreator\<rparr>
     = Some upstreamRemote
   \<and> findBaseRemote \<lparr>remotes = [originRemote], repo = repo exampleCreator\<rparr> = Some originRemote
   \<and> findBaseRemote \<lparr>remotes = [], repo = repo exampleCreator\<rparr> = None
   \<and> Create \<lparr>remotes = [], repo = repo exampleCreator\<rparr> exampleWorld ''/home/u/my-repo-pr42''
        examplePR attached = (Some (Errorf ''no suitable remote found''), exampleWorld)"
  using findBaseRemote_preference
          [of "\<lparr>remotes = [originRemote, upstreamRemote], repo = repo exampleCreator\<rparr>"]
        findBaseRemote_preference
          [of "\<lparr>remotes = [originRemote], repo = repo exampleCreator\<rparr>"]
        findBaseRemote_preference
          [of "\<lparr>remotes = [], repo = repo exampleCreator\<rparr>" exampleWorld
              "''/home/u/my-repo-pr42''" examplePR attached]
  by (simp add: originRemote_def upstreamRemote_def)

section \<open>Properties of worktree creation\<close>

subsection \<open>What running the commands changes\<close>

text \<open>
  \<open>configAfter cmds cfg\<close> is the configuration after the commands \<open>cmds\<close> have all succeeded,
  starting from \<open>cfg\<close>.
\<close>

lemma runGit_ok:
  assumes "runGit w args = (None, w')"
  shows "w' = w\<lparr>invocations := invocations w @ [args],
               localConfig := configEffect args (localConfig w)\<rparr>"
  using assms by (auto simp: runGit_def split: if_splits)

lemma runGit_fails_field: "fails (snd (runGit w args)) = fails w"
  by (simp add: runGit_def)

definition configAfter :: "string list list \<Rightarrow> (string \<rightharpoonup> string) \<Rightarrow> (string \<rightharpoonup> string)" where
  "configAfter cmds cfg = foldl (\<lambda>cfg args. configEffect args cfg) cfg cmds"

lemma ExecuteCommands_ok:
  "ExecuteCommands w q = (None, w')
   \<Longrightarrow> w' = w\<lparr>invocations := invocations w @ q,
                localConfig := configAfter q (localConfig w)\<rparr>"
proof (induction q arbitrary: w)
  case Nil
  then show ?case by (simp add: configAfter_def)
next
  case (Cons args q)
  from Cons.prems obtain w1 where r: "runGit w args = (None, w1)"
    and e: "ExecuteCommands w1 q = (None, w')"
    by (auto split: prod.splits option.splits)
  from Cons.IH [OF e] runGit_ok [OF r] show ?case
    by (simp add: configAfter_def)
qed

lemma configEffect_other: "\<not> setsConfig key args \<Longrightarrow> configEffect args cfg key = cfg key"
  by (auto simp: configEffect_def setsConfig_def split: list.splits)

lemma configAfter_other:
  "\<forall>args \<in> set q. \<not> setsConfig key args \<Longrightarrow> configAfter q cfg key = cfg key"
  unfolding configAfter_def
  by (induction q arbitrary: cfg) (simp_all add: configEffect_other)

lemma SetConfig_ok:
  assumes "SetConfig w path key v = (None, w')"
  shows "w' = w\<lparr>invocations := invocations w @ [[''-C'', path, ''config'', key, v]],
               localConfig := (localConfig w)(key \<mapsto> v)\<rparr>"
  using runGit_ok [of w "[''-C'', path, ''config'', key, v]" w'] assms
  by (simp add: SetConfig_def configEffect_def gitSubcommand_def)

lemma storePRMetadata_ok:
  assumes "storePRMetadata w path pr = (None, w')"
  shows "w' = w\<lparr>invocations := invocations w @
                   [[''-C'', path, ''config'',
                     ''branch.'' @ HeadRef pr @ ''.gh-worktree-pr-number'', Itoa (Number pr)],
                    [''-C'', path, ''config'',
                     ''branch.'' @ HeadRef pr @ ''.gh-worktree-pr-title'',
                     SanitizeForGitConfig (Title pr)]],
                 localConfig := (localConfig w)
                   (''branch.'' @ HeadRef pr @ ''.gh-worktree-pr-number'' \<mapsto> Itoa (Number pr),
                    ''branch.'' @ HeadRef pr @ ''.gh-worktree-pr-title''
                      \<mapsto> SanitizeForGitConfig (Title pr))\<rparr>"
proof -
  from assms obtain w1 where
    1: "SetConfig w path (''branch.'' @ HeadRef pr @ ''.gh-worktree-pr-number'')
          (Itoa (Number pr)) = (None, w1)"
    and 2: "SetConfig w1 path (''branch.'' @ HeadRef pr @ ''.gh-worktree-pr-title'')
          (SanitizeForGitConfig (Title pr)) = (None, w')"
    unfolding storePRMetadata_def Let_def
    by (auto split: option.splits prod.splits)
  show ?thesis
    unfolding SetConfig_ok [OF 2] SetConfig_ok [OF 1] by simp
qed

lemma Create_ok:
  assumes "Create c w path pr opts = (None, w')"
  shows "\<exists>q. Create_cmdQueue c w path pr opts = Inr q
       \<and> w' = w\<lparr>invocations := invocations w @ q @
                   [[''-C'', path, ''config'',
                     ''branch.'' @ HeadRef pr @ ''.gh-worktree-pr-number'', Itoa (Number pr)],
                    [''-C'', path, ''config'',
                     ''branch.'' @ HeadRef pr @ ''.gh-worktree-pr-title'',
                     SanitizeForGitConfig (Title pr)]],
                 localConfig := (configAfter q (localConfig w))
                   (''branch.'' @ HeadRef pr @ ''.gh-worktree-pr-number'' \<mapsto> Itoa (Number pr),
                    ''branch.'' @ HeadRef pr @ ''.gh-worktree-pr-title''
                      \<mapsto> SanitizeForGitConfig (Title pr))\<rparr>"
proof -
  from assms obtain q w1 where q: "Create_cmdQueue c w path pr opts = Inr q"
    and e: "ExecuteCommands w q = (None, w1)"
    and s: "storePRMetadata w1 path pr = (None, w')"
    unfolding Create_def by (auto split: sum.splits prod.splits option.splits)
  show ?thesis
    using q unfolding storePRMetadata_ok [OF s] ExecuteCommands_ok [OF e] by simp
qed

subsection \<open>The keys that the queue sets\<close>

lemma existing_config_keys:
  assumes "cmdsForExistingRemote w remote pr opts path branch = Inr cmds"
    and "args \<in> set cmds" and "setsConfig key args"
  shows "key = ''branch.'' @ branch @ ''.remote'' \<or> key = ''branch.'' @ branch @ ''.merge''"
  using assms
  by (auto simp: cmdsForExistingRemote_def setsConfig_def gitSubcommand_def Let_def
           split: option.splits if_splits)

lemma missing_config_keys:
  assumes "cmdsForMissingRemote pr base opts path branch = Inr cmds"
    and "args \<in> set cmds" and "setsConfig key args"
  shows "key = ''branch.'' @ branch @ ''.remote'' \<or> key = ''branch.'' @ branch @ ''.merge''
       \<or> key = ''branch.'' @ branch @ ''.pushRemote''"
  using assms
  by (auto simp: cmdsForMissingRemote_def setsConfig_def gitSubcommand_def Let_def
           split: option.splits if_splits)

lemma queue_parts:
  assumes "Create_cmdQueue c w path pr opts = Inr q"
  obtains base cmds where
    "q = cmds @ (if RecurseSubmodules opts
                then [[''submodule'', ''sync'', ''--recursive''],
                      [''submodule'', ''update'', ''--init'', ''--recursive'']]
                else [])"
    and "(\<exists>remote. cmdsForExistingRemote w remote pr opts path (chosenBranch pr opts) = Inr cmds)
         \<or> cmdsForMissingRemote pr base opts path (chosenBranch pr opts) = Inr cmds"
  using assms unfolding Create_cmdQueue_def Let_def chosenBranch_def
  by (auto split: option.splits sum.splits if_splits)

lemma queue_config_keys:
  assumes "Create_cmdQueue c w path pr opts = Inr q"
    and "args \<in> set q" and "setsConfig key args"
  shows "key = ''branch.'' @ chosenBranch pr opts @ ''.remote''
       \<or> key = ''branch.'' @ chosenBranch pr opts @ ''.merge''
       \<or> key = ''branch.'' @ chosenBranch pr opts @ ''.pushRemote''"
proof -
  from assms(1) obtain base cmds where
    q: "q = cmds @ (if RecurseSubmodules opts
                then [[''submodule'', ''sync'', ''--recursive''],
                      [''submodule'', ''update'', ''--init'', ''--recursive'']]
                else [])"
    and cmds: "(\<exists>remote. cmdsForExistingRemote w remote pr opts path (chosenBranch pr opts) = Inr cmds)
         \<or> cmdsForMissingRemote pr base opts path (chosenBranch pr opts) = Inr cmds"
    by (rule queue_parts)
  have "args \<in> set cmds"
    using assms(2,3) unfolding q
    by (auto simp: setsConfig_def gitSubcommand_def split: if_splits)
  with cmds assms(3) show ?thesis
    using existing_config_keys missing_config_keys by blast
qed

lemma queue_worktree_add:
  assumes "Create_cmdQueue c w path pr opts = Inr q" and "\<not> Detach opts"
  shows "\<exists>args \<in> set q. take 2 args = [''worktree'', ''add''] \<and> chosenBranch pr opts \<in> set args"
proof -
  from assms(1) obtain base cmds where
    q: "q = cmds @ (if RecurseSubmodules opts
                then [[''submodule'', ''sync'', ''--recursive''],
                      [''submodule'', ''update'', ''--init'', ''--recursive'']]
                else [])"
    and cmds: "(\<exists>remote. cmdsForExistingRemote w remote pr opts path (chosenBranch pr opts) = Inr cmds)
         \<or> cmdsForMissingRemote pr base opts path (chosenBranch pr opts) = Inr cmds"
    by (rule queue_parts)
  from cmds assms(2)
  have "\<exists>args \<in> set cmds. take 2 args = [''worktree'', ''add''] \<and> chosenBranch pr opts \<in> set args"
    by (auto simp: cmdsForExistingRemote_def cmdsForMissingRemote_def Let_def
             split: option.splits if_splits)
  then show ?thesis unfolding q by auto
qed

lemma metadata_key_facts:
  "''branch.'' @ b @ ''.gh-worktree-pr-number'' \<noteq> ''branch.'' @ h @ ''.gh-worktree-pr-title''"
  "''branch.'' @ b @ ''.gh-worktree-pr-title'' \<noteq> ''branch.'' @ h @ ''.gh-worktree-pr-number''"
  "b \<noteq> h \<Longrightarrow> ''branch.'' @ b @ ''.gh-worktree-pr-number'' \<noteq> ''branch.'' @ h @ ''.gh-worktree-pr-number''"
  "b \<noteq> h \<Longrightarrow> ''branch.'' @ b @ ''.gh-worktree-pr-title'' \<noteq> ''branch.'' @ h @ ''.gh-worktree-pr-title''"
proof -
  have "last (''branch.'' @ b @ ''.gh-worktree-pr-number'') \<noteq> last (''branch.'' @ h @ ''.gh-worktree-pr-title'')"
    by simp
  then show "''branch.'' @ b @ ''.gh-worktree-pr-number'' \<noteq> ''branch.'' @ h @ ''.gh-worktree-pr-title''"
    by metis
  have "last (''branch.'' @ b @ ''.gh-worktree-pr-title'') \<noteq> last (''branch.'' @ h @ ''.gh-worktree-pr-number'')"
    by simp
  then show "''branch.'' @ b @ ''.gh-worktree-pr-title'' \<noteq> ''branch.'' @ h @ ''.gh-worktree-pr-number''"
    by metis
qed simp_all

lemma queue_no_metadata:
  assumes "Create_cmdQueue c w path pr opts = Inr q" and "args \<in> set q"
  shows "\<not> setsConfig (''branch.'' @ b @ ''.gh-worktree-pr-number'') args"
    and "\<not> setsConfig (''branch.'' @ b @ ''.gh-worktree-pr-title'') args"
proof -
  have n: "''branch.'' @ b @ ''.gh-worktree-pr-number'' \<noteq> ''branch.'' @ x @ s"
    if "s \<in> {''.remote'', ''.merge'', ''.pushRemote''}" for x s
  proof -
    have "last (''branch.'' @ b @ ''.gh-worktree-pr-number'') \<noteq> last (''branch.'' @ x @ s)"
      using that by auto
    then show ?thesis by metis
  qed
  have t: "''branch.'' @ b @ ''.gh-worktree-pr-title'' \<noteq> ''branch.'' @ x @ s"
    if "s \<in> {''.remote'', ''.merge'', ''.pushRemote''}" for x s
  proof -
    have "take 5 (rev (''branch.'' @ b @ ''.gh-worktree-pr-title''))
          \<noteq> take 5 (rev (''branch.'' @ x @ s))"
      using that by auto
    then show ?thesis by metis
  qed
  show "\<not> setsConfig (''branch.'' @ b @ ''.gh-worktree-pr-number'') args"
    using queue_config_keys [OF assms] n by blast
  show "\<not> setsConfig (''branch.'' @ b @ ''.gh-worktree-pr-title'') args"
    using queue_config_keys [OF assms] t by blast
qed

subsection \<open>Metadata after creation\<close>

lemma filter_isConfigCmd_queue:
  assumes "Detach opts" and "Create_cmdQueue c w path pr opts = Inr q"
  shows "filter isConfigCmd q = []"
  using queue_detach [OF assms] by (simp add: list_ex_iff filter_empty_conv)

text \<open>
  Claim C4, as the code has it. With \<open>Detach\<close> set, the queue of \<open>Create\<close> holds no \<open>config\<close>
  command, so no tracking is set up. The metadata is not skipped: when \<open>Create\<close> succeeds, the
  only \<open>config\<close> commands it has started are the two that store the PR number and the
  sanitized title under \<open>branch.<head-ref>.gh-worktree-pr-number\<close> and
  \<open>branch.<head-ref>.gh-worktree-pr-title\<close>, and the configuration holds both values.
\<close>

theorem detach_skips_tracking_not_metadata:
  assumes "Detach opts"
  shows "(\<forall>q. Create_cmdQueue c w path pr opts = Inr q \<longrightarrow> \<not> list_ex isConfigCmd q)
       \<and> (\<forall>w'. Create c w path pr opts = (None, w') \<longrightarrow>
             filter isConfigCmd (drop (length (invocations w)) (invocations w')) =
               [[''-C'', path, ''config'',
                 ''branch.'' @ HeadRef pr @ ''.gh-worktree-pr-number'', Itoa (Number pr)],
                [''-C'', path, ''config'',
                 ''branch.'' @ HeadRef pr @ ''.gh-worktree-pr-title'',
                 SanitizeForGitConfig (Title pr)]]
           \<and> localConfig w' (''branch.'' @ HeadRef pr @ ''.gh-worktree-pr-number'')
               = Some (Itoa (Number pr))
           \<and> localConfig w' (''branch.'' @ HeadRef pr @ ''.gh-worktree-pr-title'')
               = Some (SanitizeForGitConfig (Title pr)))"
proof (intro conjI allI impI)
  fix q assume "Create_cmdQueue c w path pr opts = Inr q"
  with assms show "\<not> list_ex isConfigCmd q" by (rule queue_detach)
next
  fix w' assume ok: "Create c w path pr opts = (None, w')"
  from Create_ok [OF ok] obtain q where q: "Create_cmdQueue c w path pr opts = Inr q"
    and w': "w' = w\<lparr>invocations := invocations w @ q @
                   [[''-C'', path, ''config'',
                     ''branch.'' @ HeadRef pr @ ''.gh-worktree-pr-number'', Itoa (Number pr)],
                    [''-C'', path, ''config'',
                     ''branch.'' @ HeadRef pr @ ''.gh-worktree-pr-title'',
                     SanitizeForGitConfig (Title pr)]],
                 localConfig := (configAfter q (localConfig w))
                   (''branch.'' @ HeadRef pr @ ''.gh-worktree-pr-number'' \<mapsto> Itoa (Number pr),
                    ''branch.'' @ HeadRef pr @ ''.gh-worktree-pr-title''
                      \<mapsto> SanitizeForGitConfig (Title pr))\<rparr>"
    by blast
  show "filter isConfigCmd (drop (length (invocations w)) (invocations w')) =
               [[''-C'', path, ''config'',
                 ''branch.'' @ HeadRef pr @ ''.gh-worktree-pr-number'', Itoa (Number pr)],
                [''-C'', path, ''config'',
                 ''branch.'' @ HeadRef pr @ ''.gh-worktree-pr-title'',
                 SanitizeForGitConfig (Title pr)]]"
    unfolding w' using filter_isConfigCmd_queue [OF assms q]
    by (simp add: isConfigCmd_def gitSubcommand_def)
  show "localConfig w' (''branch.'' @ HeadRef pr @ ''.gh-worktree-pr-number'')
               = Some (Itoa (Number pr))"
    unfolding w' using metadata_key_facts(1) [of "HeadRef pr" "HeadRef pr"] by simp
  show "localConfig w' (''branch.'' @ HeadRef pr @ ''.gh-worktree-pr-title'')
               = Some (SanitizeForGitConfig (Title pr))"
    unfolding w' by simp
qed

text \<open>
  Claim C10. When the \<open>BranchName\<close> option is set and differs from the head ref of the PR and
  \<open>Create\<close> succeeds, the PR number and the sanitized title are stored under the keys
  \<open>branch.<head-ref>.gh-worktree-pr-number\<close> and \<open>branch.<head-ref>.gh-worktree-pr-title\<close>. The
  keys of the overriding branch name keep the values they had and no command sets them,
  although (without \<open>Detach\<close>) the \<open>worktree add\<close> command that was run names that branch.
\<close>

theorem metadata_under_head_ref:
  assumes "BranchName opts \<noteq> []" and "BranchName opts \<noteq> HeadRef pr"
    and "Create c w path pr opts = (None, w')"
  shows "localConfig w' (''branch.'' @ HeadRef pr @ ''.gh-worktree-pr-number'')
           = Some (Itoa (Number pr))
       \<and> localConfig w' (''branch.'' @ HeadRef pr @ ''.gh-worktree-pr-title'')
           = Some (SanitizeForGitConfig (Title pr))
       \<and> localConfig w' (''branch.'' @ BranchName opts @ ''.gh-worktree-pr-number'')
           = localConfig w (''branch.'' @ BranchName opts @ ''.gh-worktree-pr-number'')
       \<and> localConfig w' (''branch.'' @ BranchName opts @ ''.gh-worktree-pr-title'')
           = localConfig w (''branch.'' @ BranchName opts @ ''.gh-worktree-pr-title'')
       \<and> \<not> list_ex (\<lambda>args. setsConfig (''branch.'' @ BranchName opts @ ''.gh-worktree-pr-number'') args
                          \<or> setsConfig (''branch.'' @ BranchName opts @ ''.gh-worktree-pr-title'') args)
                  (drop (length (invocations w)) (invocations w'))
       \<and> (\<not> Detach opts \<longrightarrow>
            list_ex (\<lambda>args. take 2 args = [''worktree'', ''add''] \<and> BranchName opts \<in> set args)
                    (drop (length (invocations w)) (invocations w')))"
proof -
  let ?B = "BranchName opts" and ?H = "HeadRef pr"
  from Create_ok [OF assms(3)] obtain q where q: "Create_cmdQueue c w path pr opts = Inr q"
    and w': "w' = w\<lparr>invocations := invocations w @ q @
                   [[''-C'', path, ''config'',
                     ''branch.'' @ HeadRef pr @ ''.gh-worktree-pr-number'', Itoa (Number pr)],
                    [''-C'', path, ''config'',
                     ''branch.'' @ HeadRef pr @ ''.gh-worktree-pr-title'',
                     SanitizeForGitConfig (Title pr)]],
                 localConfig := (configAfter q (localConfig w))
                   (''branch.'' @ HeadRef pr @ ''.gh-worktree-pr-number'' \<mapsto> Itoa (Number pr),
                    ''branch.'' @ HeadRef pr @ ''.gh-worktree-pr-title''
                      \<mapsto> SanitizeForGitConfig (Title pr))\<rparr>"
    by blast
  have cb: "chosenBranch pr opts = ?B" using assms(1) by (simp add: chosenBranch_def)
  have k: "''branch.'' @ ?B @ ''.gh-worktree-pr-number'' \<noteq> ''branch.'' @ ?H @ ''.gh-worktree-pr-number''"
      "''branch.'' @ ?B @ ''.gh-worktree-pr-number'' \<noteq> ''branch.'' @ ?H @ ''.gh-worktree-pr-title''"
      "''branch.'' @ ?B @ ''.gh-worktree-pr-title'' \<noteq> ''branch.'' @ ?H @ ''.gh-worktree-pr-number''"
      "''branch.'' @ ?B @ ''.gh-worktree-pr-title'' \<noteq> ''branch.'' @ ?H @ ''.gh-worktree-pr-title''"
    using metadata_key_facts assms(2) by blast+
  have qn: "configAfter q (localConfig w) (''branch.'' @ ?B @ ''.gh-worktree-pr-number'')
            = localConfig w (''branch.'' @ ?B @ ''.gh-worktree-pr-number'')"
    using queue_no_metadata(1) [OF q] by (intro configAfter_other) blast
  have qt: "configAfter q (localConfig w) (''branch.'' @ ?B @ ''.gh-worktree-pr-title'')
            = localConfig w (''branch.'' @ ?B @ ''.gh-worktree-pr-title'')"
    using queue_no_metadata(2) [OF q] by (intro configAfter_other) blast
  have 1: "localConfig w' (''branch.'' @ ?H @ ''.gh-worktree-pr-number'') = Some (Itoa (Number pr))"
    unfolding w' using metadata_key_facts(1) [of ?H ?H] by simp
  have 2: "localConfig w' (''branch.'' @ ?H @ ''.gh-worktree-pr-title'')
           = Some (SanitizeForGitConfig (Title pr))"
    unfolding w' by simp
  have 3: "localConfig w' (''branch.'' @ ?B @ ''.gh-worktree-pr-number'')
           = localConfig w (''branch.'' @ ?B @ ''.gh-worktree-pr-number'')"
    unfolding w' using k qn by simp
  have 4: "localConfig w' (''branch.'' @ ?B @ ''.gh-worktree-pr-title'')
           = localConfig w (''branch.'' @ ?B @ ''.gh-worktree-pr-title'')"
    unfolding w' using k qt by simp
  have 5: "\<not> list_ex (\<lambda>args. setsConfig (''branch.'' @ ?B @ ''.gh-worktree-pr-number'') args
                          \<or> setsConfig (''branch.'' @ ?B @ ''.gh-worktree-pr-title'') args)
                  (drop (length (invocations w)) (invocations w'))"
    unfolding w' using queue_no_metadata [OF q] k
    by (auto simp: list_ex_iff setsConfig_def gitSubcommand_def)
  have 6: "\<not> Detach opts \<longrightarrow>
            list_ex (\<lambda>args. take 2 args = [''worktree'', ''add''] \<and> ?B \<in> set args)
                    (drop (length (invocations w)) (invocations w'))"
    unfolding w' using queue_worktree_add [OF q] cb
    by (auto simp: list_ex_iff)
  from 1 2 3 4 5 6 show ?thesis by blast
qed

definition renamed :: CheckoutOptions where
  "renamed = \<lparr>RecurseSubmodules = False, Force = False, Detach = False, BranchName = ''review''\<rparr>"

lemma Create_detached_example:
  "fst (Create exampleCreator exampleWorld ''/home/u/my-repo-pr42'' examplePR detached) = None"
  by code_simp

lemma Create_renamed_example:
  "fst (Create exampleCreator exampleWorld ''/home/u/my-repo-pr42'' examplePR renamed) = None"
  by code_simp

text \<open>
  Claim C4 as stated fails: with \<open>Detach\<close> set, \<open>Create\<close> on the example succeeds, and the keys
  \<open>branch.feature.gh-worktree-pr-number\<close> and \<open>branch.feature.gh-worktree-pr-title\<close>, unset
  before, are set afterwards; the last two commands started are the ones that write them.
\<close>

theorem detach_metadata_counterexample:
  "Detach detached
   \<and> fst (Create exampleCreator exampleWorld ''/home/u/my-repo-pr42'' examplePR detached) = None
   \<and> localConfig exampleWorld ''branch.feature.gh-worktree-pr-number'' = None
   \<and> localConfig exampleWorld ''branch.feature.gh-worktree-pr-title'' = None
   \<and> localConfig (snd (Create exampleCreator exampleWorld ''/home/u/my-repo-pr42'' examplePR
                         detached)) ''branch.feature.gh-worktree-pr-number'' = Some ''42''
   \<and> localConfig (snd (Create exampleCreator exampleWorld ''/home/u/my-repo-pr42'' examplePR
                         detached)) ''branch.feature.gh-worktree-pr-title''
       = Some ''Fix parser again''
   \<and> invocations (snd (Create exampleCreator exampleWorld ''/home/u/my-repo-pr42'' examplePR
                         detached)) =
       [[''fetch'', ''origin'', ''refs/pull/42/head'', ''--no-tags''],
        [''worktree'', ''add'', ''--detach'', ''/home/u/my-repo-pr42'', ''FETCH_HEAD''],
        [''submodule'', ''sync'', ''--recursive''],
        [''submodule'', ''update'', ''--init'', ''--recursive''],
        [''-C'', ''/home/u/my-repo-pr42'', ''config'',
         ''branch.feature.gh-worktree-pr-number'', ''42''],
        [''-C'', ''/home/u/my-repo-pr42'', ''config'',
         ''branch.feature.gh-worktree-pr-title'', ''Fix parser again'']]"
  by code_simp

theorem detach_skips_tracking_not_metadata_witness:
  "Detach detached
   \<and> Create exampleCreator exampleWorld ''/home/u/my-repo-pr42'' examplePR detached
       = (None, snd (Create exampleCreator exampleWorld ''/home/u/my-repo-pr42'' examplePR detached))
   \<and> localConfig (snd (Create exampleCreator exampleWorld ''/home/u/my-repo-pr42'' examplePR
                         detached)) (''branch.'' @ HeadRef examplePR @ ''.gh-worktree-pr-number'')
       = Some (Itoa (Number examplePR))"
proof -
  have d: "Detach detached" by (simp add: detached_def)
  have c: "Create exampleCreator exampleWorld ''/home/u/my-repo-pr42'' examplePR detached
       = (None, snd (Create exampleCreator exampleWorld ''/home/u/my-repo-pr42'' examplePR detached))"
    using Create_detached_example by (metis prod.collapse)
  from detach_skips_tracking_not_metadata
         [OF d, of exampleCreator exampleWorld "''/home/u/my-repo-pr42''" examplePR] c
  show ?thesis using d by blast
qed

theorem metadata_under_head_ref_witness:
  "BranchName renamed \<noteq> [] \<and> BranchName renamed \<noteq> HeadRef examplePR
   \<and> Create exampleCreator exampleWorld ''/home/u/my-repo-pr42'' examplePR renamed
       = (None, snd (Create exampleCreator exampleWorld ''/home/u/my-repo-pr42'' examplePR renamed))
   \<and> localConfig (snd (Create exampleCreator exampleWorld ''/home/u/my-repo-pr42'' examplePR
                         renamed)) (''branch.'' @ HeadRef examplePR @ ''.gh-worktree-pr-number'')
       = Some (Itoa (Number examplePR))
   \<and> localConfig (snd (Create exampleCreator exampleWorld ''/home/u/my-repo-pr42'' examplePR
                         renamed)) (''branch.'' @ BranchName renamed @ ''.gh-worktree-pr-number'')
       = localConfig exampleWorld (''branch.'' @ BranchName renamed @ ''.gh-worktree-pr-number'')"
proof -
  have b: "BranchName renamed \<noteq> []" "BranchName renamed \<noteq> HeadRef examplePR"
    by (simp_all add: renamed_def examplePR_def)
  have c: "Create exampleCreator exampleWorld ''/home/u/my-repo-pr42'' examplePR renamed
       = (None, snd (Create exampleCreator exampleWorld ''/home/u/my-repo-pr42'' examplePR renamed))"
    using Create_renamed_example by (metis prod.collapse)
  from metadata_under_head_ref [OF b c] b c show ?thesis by blast
qed

section \<open>Properties of promotion\<close>









lemma GetWorktreeType_unset:
  assumes "GetRoot w = Inr root"
    and "localConfig w (''branch.'' @ b @ ''.gh-worktree-type'') = None"
    and "localConfig w (''branch.'' @ b @ ''.gh-worktree-pr-number'') = None"
  shows "GetWorktreeType w b = Inr []"
  using assms by (simp add: GetWorktreeType_def GetConfig_def)






section \<open>Properties of the identifier parser\<close>

lemma validate_PRNumber_None: "validate_PRNumber n = None \<longleftrightarrow> 1 \<le> n \<and> n \<le> 999999"
  by (auto simp: validate_PRNumber_def)

lemma ParsePRNumber_bare:
  assumes "\<not> Contains s ''/pull/''"
  shows "ParsePRNumber s = Inr n
           \<longleftrightarrow> Atoi (TrimSpace s) = Inr n \<and> 1 \<le> n \<and> n \<le> 999999"
  using assms
  by (auto simp: ParsePRNumber_def validate_PRNumber_None [symmetric]
           split: sum.splits option.splits)

lemma ParsePRNumber_url:
  assumes "Contains s ''/pull/''"
  shows "ParsePRNumber s = Inr n
           \<longleftrightarrow> validate_URL s = None
               \<and> (\<exists>a b. Split s ''/pull/'' = [a, b] \<and> Atoi (TrimSpace b) = Inr n)
               \<and> 1 \<le> n \<and> n \<le> 999999"
proof -
  have two: "length xs = 2 \<longleftrightarrow> (\<exists>a b. xs = [a, b])" for xs :: "string list"
    by (cases xs; cases "tl xs"; cases "tl (tl xs)") auto
  show ?thesis
  proof (cases "length (Split s ''/pull/'') = 2")
    case True
    then obtain a b where ab: "Split s ''/pull/'' = [a, b]" using two by blast
    with assms show ?thesis
      by (auto simp: ParsePRNumber_def Let_def validate_PRNumber_None [symmetric]
               split: sum.splits option.splits)
  next
    case False
    then have "\<not> (\<exists>a b. Split s ''/pull/'' = [a, b])" using two by blast
    with assms False show ?thesis
      by (auto simp: ParsePRNumber_def Let_def split: sum.splits option.splits)
  qed
qed

lemma ParsePRNumber_examples:
  "ParsePRNumber ''123'' = Inr 123"
  "ParsePRNumber ''https://github.com/o/r/pull/456'' = Inr 456"
  "ParsePRNumber ''https://github.com/o/r/pull/abc''
     = Inl (Wrapf ''invalid PR number in URL'' ErrSyntax)"
  "ParsePRNumber ''0'' = Inl (Errorf ''invalid PR number: 0'')"
  "ParsePRNumber ''-1'' = Inl (Errorf ''invalid PR number: -1'')"
  "ParsePRNumber ''9999999'' = Inl (Errorf ''invalid PR number: 9999999'')"
  "ParsePRNumber ''http://github.com/o/r/pull/123''
     = Inl (Wrapf ''invalid URL'' (Errorf ''only HTTPS URLs are allowed''))"
  by code_simp+

text \<open>
  Claim C7, at a pull request of a repository whose name is \<open>pull\<close>. The selector
  \<open>https://github.com/wei/pull/pull/123\<close> has the form
  \<open>https://github.com/OWNER/REPO/pull/NUMBER\<close> that \<open>ParsePRNumber\<close> documents, it passes
  \<open>validate_URL\<close>, and it ends in \<open>/pull/\<close> followed by \<open>123\<close>, a number that
  \<open>validate_PRNumber\<close> accepts. \<open>Split\<close> cuts it at the first \<open>/pull/\<close>, which is the
  one before the name of the repository, so that the text taken for the number is
  \<open>pull/123\<close>, and \<open>ParsePRNumber\<close> returns the error \<open>invalid PR number in URL\<close>.
\<close>

theorem ParsePRNumber_repository_named_pull:
  "validate_URL ''https://github.com/wei/pull/pull/123'' = None
   \<and> ''https://github.com/wei/pull/pull/123'' = ''https://github.com/wei/pull'' @ ''/pull/'' @ ''123''
   \<and> Atoi (TrimSpace ''123'') = Inr 123
   \<and> validate_PRNumber 123 = None
   \<and> Split ''https://github.com/wei/pull/pull/123'' ''/pull/''
       = [''https://github.com/wei'', ''pull/123'']
   \<and> ParsePRNumber ''https://github.com/wei/pull/pull/123''
       = Inl (Wrapf ''invalid PR number in URL'' ErrSyntax)"
  by code_simp

section \<open>Properties of the listings\<close>

subsection \<open>What the test on the name accepts\<close>

lemma spaceRunes_first:
  "w \<in> set spaceRunes \<Longrightarrow> \<exists>b bs. w = b # bs \<and> \<not> inRange CHR ''0'' CHR ''9'' b"
  unfolding spaceRunes_def inRange_def by (elim set_ConsD [elim_format] disjE) simp_all

lemma digit_spaceWidth:
  assumes "inRange CHR ''0'' CHR ''9'' c"
  shows "spaceWidth (c # s) = 0"
proof -
  have "\<not> HasPrefix (c # s) w" if "w \<in> set spaceRunes" for w
  proof -
    from spaceRunes_first [OF that] obtain b bs
      where w: "w = b # bs" and b: "\<not> inRange CHR ''0'' CHR ''9'' b" by blast
    from b assms have "c \<noteq> b" by blast
    then show ?thesis by (simp add: w)
  qed
  then have "find (HasPrefix (c # s)) spaceRunes = None"
    by (simp add: find_None_iff)
  then show ?thesis by (simp add: spaceWidth_def)
qed

lemma digit_not_newline: "inRange CHR ''0'' CHR ''9'' c \<Longrightarrow> c \<noteq> CHR 0x0A"
  by (auto simp: inRange_def)

lemma skipSpace_digit:
  assumes "inRange CHR ''0'' CHR ''9'' c"
  shows "skipSpace (c # s) = Some (c # s)"
  using digit_not_newline [OF assms] digit_spaceWidth [OF assms, of s]
  by (subst skipSpace.simps) simp

lemma digitsValue_foldl_nonneg:
  "0 \<le> n \<Longrightarrow> list_all (inRange CHR ''0'' CHR ''9'') ds \<Longrightarrow>
   0 \<le> foldl (\<lambda>n c. 10 * n + (of_char c - 48)) (n :: int) ds"
proof (induction ds arbitrary: n)
  case Nil
  then show ?case by simp
next
  case (Cons c ds)
  from Cons.prems have "(48 :: nat) \<le> of_char c" by (simp add: inRange_def)
  then have "(48 :: int) \<le> of_char c"
    by (metis of_char_of of_nat_le_iff of_nat_numeral of_nat_of_char)
  with Cons.prems have "0 \<le> 10 * n + (of_char c - 48)" by simp
  with Cons show ?case by simp
qed

lemma digitsValue_nonneg: "list_all (inRange CHR ''0'' CHR ''9'') ds \<Longrightarrow> 0 \<le> digitsValue ds"
  unfolding digitsValue_def by (rule digitsValue_foldl_nonneg) simp_all

lemma Atoi_digits:
  assumes "ds \<noteq> []" and "list_all (inRange CHR ''0'' CHR ''9'') ds"
    and "digitsValue ds \<le> 2 ^ 63 - 1"
  shows "Atoi ds = Inr (digitsValue ds)"
proof -
  from assms(1) obtain c cs where ds: "ds = c # cs" by (cases ds) auto
  with assms(2) have c: "inRange CHR ''0'' CHR ''9'' c" by simp
  then have nosign: "c \<noteq> CHR ''-''" "c \<noteq> CHR ''+''" by (auto simp: inRange_def)
  have "0 \<le> digitsValue ds" using assms(2) by (rule digitsValue_nonneg)
  with assms nosign show ?thesis
    by (simp add: Atoi_def ds Let_def)
qed

lemma Sscanf_d_digits:
  assumes "ds \<noteq> []" and "list_all (inRange CHR ''0'' CHR ''9'') ds"
    and "digitsValue ds \<le> 2 ^ 63 - 1"
    and "rest = [] \<or> \<not> (inRange CHR ''0'' CHR ''9'' (hd rest) \<or> hd rest = CHR ''_'')"
  shows "Sscanf_d (ds @ rest) = Inr (digitsValue ds)"
proof -
  from assms(1) obtain c cs where ds: "ds = c # cs" by (cases ds) auto
  with assms(2) have c: "inRange CHR ''0'' CHR ''9'' c" by simp
  then have nosign: "c \<noteq> CHR ''-''" "c \<noteq> CHR ''+''" by (auto simp: inRange_def)
  have sk: "skipSpace (ds @ rest) = Some (ds @ rest)"
    using skipSpace_digit [OF c, of "cs @ rest"] by (simp add: ds)
  have "\<forall>x\<in>set ds. inRange CHR ''0'' CHR ''9'' x \<or> x = CHR ''_''"
    using assms(2) by (auto simp: list_all_iff)
  then have tw: "takeWhile (\<lambda>c. inRange CHR ''0'' CHR ''9'' c \<or> c = CHR ''_'') (ds @ rest) = ds"
    using assms(4) by (cases rest) (auto simp: takeWhile_append2)
  have a: "Atoi ds = Inr (digitsValue ds)" using assms(1-3) by (rule Atoi_digits)
  have sg: "\<not> (HasPrefix (ds @ rest) ''+'' \<or> HasPrefix (ds @ rest) ''-'')"
    using nosign by (simp add: ds)
  show ?thesis
    unfolding Sscanf_d_def sk using sg tw a assms(1) by (simp add: Let_def)
qed

lemma HasPrefix_own_prefix: "HasPrefix (p @ s) p"
  by (induction p) auto

lemma prNumberByName_digits:
  assumes "baseName = repoName @ ''-pr'' @ ds @ rest"
    and "ds \<noteq> []" and "list_all (inRange CHR ''0'' CHR ''9'') ds"
    and "digitsValue ds \<le> 2 ^ 63 - 1"
    and "rest = [] \<or> \<not> (inRange CHR ''0'' CHR ''9'' (hd rest) \<or> hd rest = CHR ''_'')"
  shows "prNumberByName repoName baseName = Some (digitsValue ds)"
proof -
  have p: "HasPrefix baseName (repoName @ ''-pr'')"
    using HasPrefix_own_prefix [of "repoName @ ''-pr''" "ds @ rest"] by (simp add: assms(1))
  have l: "length baseName > length (repoName @ ''-pr'')"
    using assms(2) by (simp add: assms(1))
  have d: "drop (length (repoName @ ''-pr'')) baseName = ds @ rest"
    by (simp add: assms(1))
  have s: "Sscanf_d (ds @ rest) = Inr (digitsValue ds)"
    using assms(2-5) by (rule Sscanf_d_digits)
  show ?thesis
    unfolding prNumberByName_def Let_def using p l by (simp only: d s if_True sum.case simp_thms)
qed

subsection \<open>How one worktree is classified\<close>

lemma pr_worktree_by_name:
  assumes "Path wt \<noteq> gitRoot" and "resolvedDir w (Dir (Path wt)) = parentDir"
    and "Base (Path wt) = repoName @ ''-pr'' @ ds"
    and "ds \<noteq> []" and "list_all (inRange CHR ''0'' CHR ''9'') ds"
    and "digitsValue ds \<le> 2 ^ 63 - 1"
  shows "\<exists>e. prWorktreeEntry w repoName gitRoot parentDir wt = Some e
           \<and> Path e = Path wt \<and> Branch e = Branch wt
           \<and> (digitsValue ds \<noteq> 0
                \<or> localConfig w (''branch.'' @ Branch wt @ ''.gh-worktree-pr-number'') = None
               \<longrightarrow> PRNumber e = digitsValue ds)"
    and "\<not> isBranchWorktree w repoName gitRoot parentDir wt"
proof -
  have n: "prNumberByName repoName (Base (Path wt)) = Some (digitsValue ds)"
    using prNumberByName_digits [of "Base (Path wt)" repoName ds "[]"] assms(3-6) by simp
  show "\<not> isBranchWorktree w repoName gitRoot parentDir wt"
    by (simp add: isBranchWorktree_def Let_def n)
  show "\<exists>e. prWorktreeEntry w repoName gitRoot parentDir wt = Some e
           \<and> Path e = Path wt \<and> Branch e = Branch wt
           \<and> (digitsValue ds \<noteq> 0
                \<or> localConfig w (''branch.'' @ Branch wt @ ''.gh-worktree-pr-number'') = None
               \<longrightarrow> PRNumber e = digitsValue ds)"
    using assms(1,2)
    by (auto simp: prWorktreeEntry_def Let_def n GetConfig_def split: option.splits sum.splits)
qed

lemma branch_like_pr_listed_as_pr:
  assumes "Path wt \<noteq> gitRoot" and "resolvedDir w (Dir (Path wt)) = parentDir"
    and "Base (Path wt) = repoName @ ''-pr'' @ ds @ rest"
    and "ds \<noteq> []" and "list_all (inRange CHR ''0'' CHR ''9'') ds"
    and "digitsValue ds \<le> 2 ^ 63 - 1"
    and "rest = [] \<or> \<not> (inRange CHR ''0'' CHR ''9'' (hd rest) \<or> hd rest = CHR ''_'')"
  shows "prWorktreeEntry w repoName gitRoot parentDir wt \<noteq> None"
    and "\<not> isBranchWorktree w repoName gitRoot parentDir wt"
proof -
  have n: "prNumberByName repoName (Base (Path wt)) = Some (digitsValue ds)"
    using prNumberByName_digits [of "Base (Path wt)" repoName ds rest] assms(3-7) by simp
  show "\<not> isBranchWorktree w repoName gitRoot parentDir wt"
    by (simp add: isBranchWorktree_def Let_def n)
  show "prWorktreeEntry w repoName gitRoot parentDir wt \<noteq> None"
    using assms(1,2)
    by (auto simp: prWorktreeEntry_def Let_def n split: option.splits sum.splits)
qed

lemma branch_worktree_by_type:
  assumes "Path wt \<noteq> gitRoot" and "resolvedDir w (Dir (Path wt)) = parentDir"
    and "HasPrefix (Base (Path wt)) (repoName @ ''-'')"
    and "prNumberByName repoName (Base (Path wt)) = None"
    and "worktreeTypeOf w (Branch wt) = ''branch'' \<or> worktreeTypeOf w (Branch wt) = []"
  shows "isBranchWorktree w repoName gitRoot parentDir wt"
    and "prWorktreeEntry w repoName gitRoot parentDir wt = None"
  using assms by (auto simp: isBranchWorktree_def prWorktreeEntry_def Let_def)

lemma listed_worktrees:
  assumes "List w = Inr allWorktrees" and "GetRoot w = Inr gitRoot"
  shows "ListPRWorktrees w repoName
           = Inr (List.map_filter
                    (prWorktreeEntry w repoName gitRoot (resolvedDir w (Dir gitRoot)))
                    allWorktrees)"
    and "ListBranchWorktrees w repoName
           = Inr (filter (isBranchWorktree w repoName gitRoot (resolvedDir w (Dir gitRoot)))
                    allWorktrees)"
  using assms by (simp_all add: ListPRWorktrees_def ListBranchWorktrees_def)

subsection \<open>An example\<close>

definition listingWorld :: world where
  "listingWorld =
     \<lparr>commonDir = Some ''/home/u/my-repo/.git'', cwd = Some ''/home/u/my-repo'',
      localConfig = [''branch.pr2-fix.gh-worktree-type'' \<mapsto> ''branch''],
      localBranches = [''main'', ''feature'', ''feature-x'', ''pr2-fix''],
      worktreePorcelain = Some (Join
        [''worktree /home/u/my-repo'', ''HEAD 1111'', ''branch refs/heads/main'', '''',
         ''worktree /home/u/my-repo-pr42'', ''HEAD 2222'', ''branch refs/heads/feature'', '''',
         ''worktree /home/u/my-repo-feature-x'', ''HEAD 3333'', ''branch refs/heads/feature-x'', '''',
         ''worktree /home/u/my-repo-pr2-fix'', ''HEAD 4444'', ''branch refs/heads/pr2-fix'', '''']
        [CHR 0x0A]),
      evalSymlinks = Some, invocations = [], fails = (\<lambda>started args. False)\<rparr>"

text \<open>
  Claim C6, at a branch whose name starts with \<open>pr\<close> and a digit. For the branch
  \<open>pr2-fix\<close> of \<open>my-repo\<close>, \<open>GeneratePathForBranch\<close> gives the directory
  \<open>my-repo-pr2-fix\<close>; its base name is not \<open>my-repo-pr\<close> followed by digits, and the stored
  type of the branch is \<open>branch\<close>. \<open>DetectWorktreeType\<close> calls it a branch worktree, but
  \<open>ListBranchWorktrees\<close> leaves it out and \<open>ListPRWorktrees\<close> lists it as pull request 2,
  the number that \<open>Sscanf\<close> reads at the start of \<open>2-fix\<close>. The other two worktrees of
  the example are listed as the claim says: \<open>my-repo-pr42\<close>, with nothing stored for its
  branch, as pull request 42, and \<open>my-repo-feature-x\<close>, with no stored type, as a branch
  worktree.
\<close>

theorem branch_named_like_pr_listed_as_pr:
  "GeneratePathForBranch listingWorld ''my-repo'' ''pr2-fix'' = Inr ''/home/u/my-repo-pr2-fix''
   \<and> GetWorktreeType listingWorld ''pr2-fix'' = Inr ''branch''
   \<and> DetectWorktreeType listingWorld ''/home/u/my-repo-pr2-fix'' = ''branch''
   \<and> ListBranchWorktrees listingWorld ''my-repo''
       = Inr [\<lparr>Path = ''/home/u/my-repo-feature-x'', Commit = ''3333'', Branch = ''feature-x'',
               PRNumber = 0, InfoTitle = []\<rparr>]
   \<and> ListPRWorktrees listingWorld ''my-repo''
       = Inr [\<lparr>Path = ''/home/u/my-repo-pr42'', Commit = ''2222'', Branch = ''feature'',
               PRNumber = 42, InfoTitle = []\<rparr>,
              \<lparr>Path = ''/home/u/my-repo-pr2-fix'', Commit = ''4444'', Branch = ''pr2-fix'',
               PRNumber = 2, InfoTitle = []\<rparr>]"
  by code_simp

end
